theory Spec2Isabelle
  imports Complex_Main "HOL-Library.Finite_Map"
begin

section \<open>Audio buffers and the tone library (audio_processor.py)\<close>

text \<open>
  An audio buffer is pydub's \<open>AudioSegment\<close> seen at the granularity of its own interface:
  \<open>len(audio)\<close>, slicing and \<open>overlay(position=...)\<close> all count milliseconds, so a
  buffer is the list of its one-millisecond frames; what a frame is (its samples and
  their format) is left open. Times in seconds are Python floats; they are modelled by
  exact real numbers, so the product in \<open>seconds_to_milliseconds\<close> is the exact one where
  the code rounds it to a double. Order and bounds of the converted values do not depend
  on that rounding; a property that does is not settled by this theory.
\<close>

type_synonym 'a audio = "'a list"

definition len :: "'a audio \<Rightarrow> int" where
  "len a = int (length a)"

text \<open>
  The calls into pydub made by \<open>generate_beep\<close> and \<open>censor_audio\<close>. The tone generator
  and the two fades sit inside a \<open>try\<close>; \<open>None\<close> is a raised exception. \<open>silent_frame\<close>
  is one millisecond of \<open>AudioSegment.silent\<close>. The last two fields are the two steps of
  \<open>overlay\<close>: \<open>sync\<close> is \<open>AudioSegment._sync\<close>, which brings the base segment and the
  segment laid over it to one sample format (the larger channel count, frame rate and
  sample width of the two) and returns both; \<open>mix\<close> is \<open>audioop.add\<close> on one frame of the
  synced base and the frame laid over it.
\<close>

record 'a pydub =
  Sine_to_audio_segment :: "int \<Rightarrow> int \<Rightarrow> 'a audio option"
  fade_in :: "int \<Rightarrow> 'a audio \<Rightarrow> 'a audio option"
  fade_out :: "int \<Rightarrow> 'a audio \<Rightarrow> 'a audio option"
  silent_frame :: 'a
  sync :: "'a audio \<Rightarrow> 'a audio \<Rightarrow> 'a audio \<times> 'a audio"
  mix :: "'a \<Rightarrow> 'a \<Rightarrow> 'a"

definition silent :: "'a pydub \<Rightarrow> int \<Rightarrow> 'a audio" where
  "silent lib duration = replicate (nat duration) (silent_frame lib)"

text \<open>Python's \<open>int(x)\<close> on a float: truncation towards zero.\<close>

definition py_int :: "real \<Rightarrow> int" where
  "py_int x = (if 0 \<le> x then \<lfloor>x\<rfloor> else \<lceil>x\<rceil>)"

text \<open>utils.py, \<open>seconds_to_milliseconds\<close>: \<open>None\<close> gives 0, else \<open>max(0, int(float(seconds) * 1000))\<close>.\<close>

definition seconds_to_milliseconds :: "real option \<Rightarrow> int" where
  "seconds_to_milliseconds seconds =
     (case seconds of None \<Rightarrow> 0 | Some s \<Rightarrow> max 0 (py_int (s * 1000)))"

text \<open>audio_processor.py, \<open>generate_beep\<close>: the result is never \<open>None\<close>.\<close>

definition generate_beep :: "'a pydub \<Rightarrow> int \<Rightarrow> int \<Rightarrow> 'a audio" where
  "generate_beep lib duration_ms0 frequency_hz =
     (let duration_ms = max 0 duration_ms0 in
      if duration_ms \<le> 0 then silent lib 0
      else (case Sine_to_audio_segment lib frequency_hz duration_ms of
              None \<Rightarrow> silent lib duration_ms
            | Some beep \<Rightarrow>
                (let fade_duration = min 5 (duration_ms div 2) in
                 if fade_duration > 0 then
                   (case fade_in lib fade_duration beep of
                      None \<Rightarrow> silent lib duration_ms
                    | Some beep1 \<Rightarrow>
                        (case fade_out lib fade_duration beep1 of
                           None \<Rightarrow> silent lib duration_ms
                         | Some beep2 \<Rightarrow> beep2))
                 else beep)))"

text \<open>
  pydub's \<open>overlay(seg, position)\<close> with the default single pass. Both segments are synced
  first, and everything written comes from the synced base: the base up to \<open>position\<close>,
  then the overlaid stretch, in which the frames of the overlay (cut to what is left of
  the base) are added to those of the base, then the rest of the base.
\<close>

definition overlay :: "'a pydub \<Rightarrow> 'a audio \<Rightarrow> 'a audio \<Rightarrow> int \<Rightarrow> 'a audio" where
  "overlay lib self seg position =
     (let (seg1, seg2) = sync lib self seg;
          before = take (nat position) seg1;
          rest = drop (nat position) seg1;
          seg2' = (if length seg2 \<ge> length rest then take (length rest) seg2 else seg2);
          n = length seg2'
      in before @ map2 (mix lib) (take n rest) seg2' @ drop n rest)"

text \<open>
  Lines 128-136 of \<open>censor_audio\<close>: the conversion to milliseconds and the clamping of one
  segment against the duration of the audio.
\<close>

definition clamp_segment :: "int \<Rightarrow> real \<times> real \<Rightarrow> int \<times> int" where
  "clamp_segment original_duration_ms seg =
     (let start_ms0 = seconds_to_milliseconds (Some (fst seg));
          end_ms0 = seconds_to_milliseconds (Some (snd seg));
          start_ms1 = max 0 start_ms0;
          end_ms1 = max start_ms1 end_ms0;
          end_ms = min original_duration_ms end_ms1;
          start_ms = min original_duration_ms start_ms1
      in (start_ms, end_ms))"

text \<open>The \<open>for\<close> loop of \<open>censor_audio\<close> over the sorted segments, with its two variables.\<close>

fun censor_loop ::
  "'a pydub \<Rightarrow> int \<Rightarrow> int \<Rightarrow> (real \<times> real) list \<Rightarrow> 'a audio \<times> nat \<Rightarrow> 'a audio \<times> nat" where
  "censor_loop lib beep_frequency original_duration_ms [] acc = acc"
| "censor_loop lib beep_frequency original_duration_ms (seg # segs) (final_audio, applied_count) =
     (let (start_ms, end_ms) = clamp_segment original_duration_ms seg;
          duration_ms = end_ms - start_ms
      in if duration_ms \<le> 0
         then censor_loop lib beep_frequency original_duration_ms segs (final_audio, applied_count)
         else censor_loop lib beep_frequency original_duration_ms segs
                (overlay lib final_audio (generate_beep lib duration_ms beep_frequency) start_ms,
                 applied_count + 1))"

text \<open>
  Lines 113-160 of \<open>censor_audio\<close> on a loaded buffer: sort by start (Python's sort is
  stable, as \<open>sort_key\<close> is), then the loop from the original audio and a count of 0.
\<close>

definition censor_buffer ::
  "'a pydub \<Rightarrow> int \<Rightarrow> 'a audio \<Rightarrow> (real \<times> real) list \<Rightarrow> 'a audio \<times> nat" where
  "censor_buffer lib beep_frequency audio segments_to_censor =
     censor_loop lib beep_frequency (len audio) (sort_key fst segments_to_censor) (audio, 0)"

text \<open>
  The censoring plan the loop applies: the intervals, in milliseconds, that reach the
  overlay (sorted, clamped, those of no duration skipped), in the order of application.
\<close>

definition applied_intervals :: "int \<Rightarrow> (real \<times> real) list \<Rightarrow> (int \<times> int) list" where
  "applied_intervals original_duration_ms segments_to_censor =
     filter (\<lambda>(start_ms, end_ms). \<not> end_ms - start_ms \<le> 0)
       (map (clamp_segment original_duration_ms) (sort_key fst segments_to_censor))"

text \<open>One pass of the loop body on an interval that is applied (lines 147 and 159).\<close>

definition apply_interval :: "'a pydub \<Rightarrow> int \<Rightarrow> 'a audio \<Rightarrow> int \<times> int \<Rightarrow> 'a audio" where
  "apply_interval lib beep_frequency final_audio iv =
     overlay lib final_audio (generate_beep lib (snd iv - fst iv) beep_frequency) (fst iv)"

text \<open>The property the specification asks of a plan: each interval ends before the next starts.\<close>

fun non_overlapping :: "(int \<times> int) list \<Rightarrow> bool" where
  "non_overlapping (x # y # zs) = (snd x < fst y \<and> non_overlapping (y # zs))"
| "non_overlapping _ = True"

text \<open>
  A library in which every segment has the same sample format, as when the source audio
  is already in the format of the tone: a frame is its level, the tone is the level 7,
  silence the level 0, \<open>sync\<close> has nothing to convert, and \<open>overlay\<close> adds the levels.
\<close>

definition tone_pydub :: "nat pydub" where
  "tone_pydub = \<lparr> Sine_to_audio_segment = (\<lambda>f d. Some (replicate (nat d) 7)),
                  fade_in = (\<lambda>n seg. Some seg), fade_out = (\<lambda>n seg. Some seg),
                  silent_frame = 0, sync = (\<lambda>seg1 seg2. (seg1, seg2)),
                  mix = (\<lambda>a b. a + b) \<rparr>"

text \<open>
  pydub with the sample formats that meet in this program. A frame is one millisecond of
  16-bit mono audio, given by its frame rate and its level. \<open>extract_audio\<close> writes the
  audio at 16000 Hz; \<open>Sine(frequency_hz)\<close> generates at its default rate of 44100 Hz and
  \<open>AudioSegment.silent(duration=...)\<close> at its default rate of 11025 Hz. \<open>_sync\<close> takes both
  segments to the larger of their frame rates with \<open>set_frame_rate\<close>, which resamples a
  segment and so rewrites every frame of it whose rate is another one; \<open>audioop.add\<close> adds
  the levels and clips the sum to 16 bits. The tone has the level 7 in every frame, the
  fades leave it so, and a segment without frames counts as one of rate 0.
\<close>

type_synonym frame = "nat \<times> int"

definition frame_rate :: "frame audio \<Rightarrow> nat" where
  "frame_rate seg = (case seg of [] \<Rightarrow> 0 | fr # frs \<Rightarrow> fst fr)"

definition set_frame_rate :: "nat \<Rightarrow> frame audio \<Rightarrow> frame audio" where
  "set_frame_rate rate seg = map (\<lambda>fr. (rate, snd fr)) seg"

definition AudioSegment_sync :: "frame audio \<Rightarrow> frame audio \<Rightarrow> frame audio \<times> frame audio" where
  "AudioSegment_sync seg1 seg2 =
     (let rate = max (frame_rate seg1) (frame_rate seg2)
      in (set_frame_rate rate seg1, set_frame_rate rate seg2))"

definition audioop_add :: "frame \<Rightarrow> frame \<Rightarrow> frame" where
  "audioop_add fr1 fr2 = (fst fr1, max (- 32768) (min 32767 (snd fr1 + snd fr2)))"

definition default_pydub :: "frame pydub" where
  "default_pydub = \<lparr> Sine_to_audio_segment = (\<lambda>f d. Some (replicate (nat d) (44100, 7))),
                     fade_in = (\<lambda>n seg. Some seg), fade_out = (\<lambda>n seg. Some seg),
                     silent_frame = (11025, 0), sync = AudioSegment_sync, mix = audioop_add \<rparr>"

text \<open>The same library with a tone generator that raises on every call.\<close>

definition failing_pydub :: "frame pydub" where
  "failing_pydub = default_pydub\<lparr>Sine_to_audio_segment := (\<lambda>f d. None)\<rparr>"

text \<open>Five milliseconds of audio as \<open>extract_audio\<close> writes it, at 16000 Hz.\<close>

definition source_16k :: "frame audio" where
  "source_16k = [(16000, 1), (16000, 2), (16000, 3), (16000, 4), (16000, 5)]"

section \<open>Files\<close>

text \<open>
  The file system is a finite map from paths to nodes. A file holds decoded WAV audio, a
  video (its picture stream, the duration moviepy reports, its audio track), or bytes
  that decode as neither.
\<close>

type_synonym path = string

record 'a video =
  v_picture :: nat
  v_duration :: "real option"
  v_audio :: "'a audio option"

datatype 'a content = Wav "'a audio" | Video "'a video" | Garbage

datatype 'a node = File "'a content" | Directory

type_synonym 'a filesystem = "(path, 'a node) fmap"

text \<open>
  What the operating system does with a write to a path and with an unlink of it:
  a write completes, returns without leaving a file, raises, or raises leaving a partial file.
\<close>

datatype write_outcome = Written | Missing | Fails | Fails_partial

record os_env =
  write_result :: "path \<Rightarrow> write_outcome"
  unlink_fails :: "path \<Rightarrow> bool"

definition os_path_isfile :: "'a filesystem \<Rightarrow> path \<Rightarrow> bool" where
  "os_path_isfile fs p = (case fmlookup fs p of Some (File c) \<Rightarrow> True | _ \<Rightarrow> False)"

definition os_path_isdir :: "'a filesystem \<Rightarrow> path \<Rightarrow> bool" where
  "os_path_isdir fs p = (case fmlookup fs p of Some Directory \<Rightarrow> True | _ \<Rightarrow> False)"

definition os_path_exists :: "'a filesystem \<Rightarrow> path \<Rightarrow> bool" where
  "os_path_exists fs p = (case fmlookup fs p of Some n \<Rightarrow> True | None \<Rightarrow> False)"

text \<open>A write of a whole file; the flag is False when the write raised.\<close>

definition write_file ::
  "os_env \<Rightarrow> 'a filesystem \<Rightarrow> path \<Rightarrow> 'a content \<Rightarrow> 'a filesystem \<times> bool" where
  "write_file os fs p c =
     (if os_path_isdir fs p then (fs, False)
      else (case write_result os p of
              Written \<Rightarrow> (fmupd p (File c) fs, True)
            | Missing \<Rightarrow> (fs, True)
            | Fails \<Rightarrow> (fs, False)
            | Fails_partial \<Rightarrow> (fmupd p (File Garbage) fs, False)))"

text \<open>\<open>shutil.copyfile\<close>: raises when the source is no file or is the destination.\<close>

definition copyfile ::
  "os_env \<Rightarrow> 'a filesystem \<Rightarrow> path \<Rightarrow> path \<Rightarrow> 'a filesystem \<times> bool" where
  "copyfile os fs src dst =
     (case fmlookup fs src of
        Some (File c) \<Rightarrow> (if src = dst then (fs, False) else write_file os fs dst c)
      | _ \<Rightarrow> (fs, False))"

datatype audio_error = CouldntDecodeError | FileNotFoundError

text \<open>\<open>AudioSegment.from_wav\<close>.\<close>

definition from_wav :: "'a filesystem \<Rightarrow> path \<Rightarrow> audio_error + 'a audio" where
  "from_wav fs p =
     (case fmlookup fs p of
        Some (File (Wav audio)) \<Rightarrow> Inr audio
      | Some (File c) \<Rightarrow> Inl CouldntDecodeError
      | _ \<Rightarrow> Inl FileNotFoundError)"

text \<open>The entries of \<open>CONFIG\<close> that the modelled code reads.\<close>

record config =
  temp_dir_path :: "path option"
  beep_frequency_hz :: "int option"

text \<open>
  audio_processor.py, \<open>censor_audio\<close>: the new file system and the returned path
  (\<open>None\<close> on each of the \<open>except\<close> branches).
\<close>

definition censor_audio ::
  "'a pydub \<Rightarrow> os_env \<Rightarrow> config \<Rightarrow> 'a filesystem \<Rightarrow> path \<Rightarrow> (real \<times> real) list \<Rightarrow> path
     \<Rightarrow> 'a filesystem \<times> path option" where
  "censor_audio lib os cfg fs original_audio_path segments_to_censor output_path =
     (if segments_to_censor = [] then
        (case copyfile os fs original_audio_path output_path of
           (fs', ok) \<Rightarrow> (fs', if ok then Some output_path else None))
      else
        (case from_wav fs original_audio_path of
           Inl e \<Rightarrow> (fs, None)
         | Inr audio \<Rightarrow>
             (let beep_frequency = (case beep_frequency_hz cfg of Some f \<Rightarrow> f | None \<Rightarrow> 440);
                  (final_audio, applied_count) =
                     censor_buffer lib beep_frequency audio segments_to_censor
              in if applied_count > 0 then
                   (case write_file os fs output_path (Wav final_audio) of
                      (fs', ok) \<Rightarrow> (fs', if ok then Some output_path else None))
                 else
                   (case copyfile os fs original_audio_path output_path of
                      (fs', ok) \<Rightarrow> (fs', if ok then Some output_path else None)))))"

text \<open>An operating system on which every write and every unlink goes through.\<close>

definition ideal_os :: os_env where
  "ideal_os = \<lparr> write_result = (\<lambda>p. Written), unlink_fails = (\<lambda>p. False) \<rparr>"

definition default_config :: config where
  "default_config = \<lparr> temp_dir_path = Some ''/tmp'', beep_frequency_hz = None \<rparr>"

section \<open>Paths and temporary files (utils.py)\<close>

definition isalnum :: "char \<Rightarrow> bool" where
  "isalnum c = (let n = (of_char c :: nat) in
      (48 \<le> n \<and> n \<le> 57) \<or> (65 \<le> n \<and> n \<le> 90) \<or> (97 \<le> n \<and> n \<le> 122))"

definition isspace :: "char \<Rightarrow> bool" where
  "isspace c = (let n = (of_char c :: nat) in n = 32 \<or> (9 \<le> n \<and> n \<le> 13))"

text \<open>\<open>str.strip()\<close>.\<close>

definition strip :: "string \<Rightarrow> string" where
  "strip s = rev (dropWhile isspace (rev (dropWhile isspace s)))"

text \<open>
  \<open>os.path.join\<close> of a directory and one name, on POSIX. Joining with pathlib's \<open>/\<close> and
  taking \<open>str\<close> gives the same for the absolute, resolved directory kept in \<open>CONFIG\<close>.
\<close>

definition os_path_join :: "path \<Rightarrow> string \<Rightarrow> path" where
  "os_path_join a b =
     (if b \<noteq> [] \<and> hd b = CHR ''/'' then b
      else if a = [] \<or> last a = CHR ''/'' then a @ b
      else a @ ''/'' @ b)"

text \<open>\<open>Path(p).stem\<close>: the last component without its last suffix.\<close>

definition path_name :: "path \<Rightarrow> string" where
  "path_name p = rev (takeWhile (\<lambda>c. c \<noteq> CHR ''/'') (rev p))"

definition stem :: "path \<Rightarrow> string" where
  "stem p =
     (let name = path_name p;
          after_dot = length (takeWhile (\<lambda>c. c \<noteq> CHR ''.'') (rev name))
      in if CHR ''.'' \<in> set name \<and> after_dot + 1 < length name \<and> 0 < after_dot
         then take (length name - after_dot - 1) name
         else name)"

text \<open>
  utils.py, \<open>get_temp_filepath\<close>. The identifier drawn by \<open>uuid.uuid4()\<close> is an argument.
  After the filter no whitespace is left for \<open>strip\<close> to remove.
\<close>

definition get_temp_filepath :: "config \<Rightarrow> string \<Rightarrow> string \<Rightarrow> path option" where
  "get_temp_filepath cfg unique_id filename_suffix =
     (case temp_dir_path cfg of
        None \<Rightarrow> None
      | Some temp_dir \<Rightarrow>
          (let safe_suffix0 =
                 strip (filter (\<lambda>c. isalnum c \<or> c \<in> set ''._-'') filename_suffix);
               safe_suffix = (if safe_suffix0 = [] then ''file'' else safe_suffix0);
               temp_filename = ''tmp_'' @ unique_id @ ''_'' @ safe_suffix
           in Some (os_path_join temp_dir temp_filename)))"

text \<open>\<open>os.remove\<close> inside a \<open>try\<close> that logs an \<open>OSError\<close>, and \<open>Path.unlink\<close> likewise.\<close>

definition os_remove :: "os_env \<Rightarrow> 'a filesystem \<Rightarrow> path \<Rightarrow> 'a filesystem" where
  "os_remove os fs p =
     (if unlink_fails os p \<or> \<not> os_path_isfile fs p then fs else fmdrop p fs)"

text \<open>utils.py, \<open>cleanup_temp_files\<close>: \<open>None\<close> and empty paths are skipped, files are unlinked.\<close>

fun cleanup_temp_files :: "os_env \<Rightarrow> 'a filesystem \<Rightarrow> path option list \<Rightarrow> 'a filesystem" where
  "cleanup_temp_files os fs [] = fs"
| "cleanup_temp_files os fs (None # args) = cleanup_temp_files os fs args"
| "cleanup_temp_files os fs (Some file_path # args) =
     (if file_path \<noteq> [] \<and> os_path_isfile fs file_path
      then cleanup_temp_files os (os_remove os fs file_path) args
      else cleanup_temp_files os fs args)"

text \<open>Decimal digits of a natural number, as an f-string prints it.\<close>

fun show_nat :: "nat \<Rightarrow> string" where
  "show_nat n = (if n < 10 then [''0123456789'' ! n]
                 else show_nat (n div 10) @ [''0123456789'' ! (n mod 10)])"

declare show_nat.simps [simp del]

section \<open>Collaborators of the workflow\<close>

text \<open>
  Whisper: what \<open>model.transcribe\<close> gives on an audio file. A raw word carries the
  timestamps as \<open>float()\<close> converts them (\<open>None\<close> where the conversion raises).
\<close>

datatype whisper_error = Whisper_file_not_found | Whisper_out_of_memory | Whisper_runtime_error | Whisper_other_error

record raw_word =
  rw_word :: string
  rw_start :: "real option"
  rw_end :: "real option"

record whisper_result =
  wr_text :: string
  wr_segments :: "raw_word list list"

record word_item =
  wi_word :: string
  wi_start :: "real option"
  wi_end :: "real option"

text \<open>
  The places in the \<open>try\<close> block of \<open>run\<close> where control is in a collaborator; an exception
  that the collaborator does not catch itself comes out at one of them.
\<close>

datatype site = At_extract | At_transcribe | At_classify nat | At_temp_path | At_censor | At_reassemble

text \<open>
  Everything outside the workflow that a run depends on: the audio library, the operating
  system, the configuration, the identifiers that \<open>uuid.uuid4()\<close> draws (the first for the
  extracted audio, the second for the censored audio), the resampling that moviepy's
  \<open>write_audiofile\<close> does, Whisper (whether the model loads, and what it transcribes), the
  verdict of \<open>classify_word\<close> on a word (a boolean on every word; its keyword list and its
  model are not part of this development), the stop flag, the call sites at which an
  exception escapes a collaborator, and the elapsed time as the last status prints it.
  \<open>stop_at = Some n\<close>: the stop flag, set by another thread and never cleared, reads as set
  from the read numbered \<open>n\<close> on (reads are counted from 0 in the order \<open>run\<close> makes them).
\<close>

record 'a env =
  env_pydub :: "'a pydub"
  env_os :: os_env
  env_config :: config
  uuid4 :: "nat \<Rightarrow> string"
  to_16k_mono :: "'a audio \<Rightarrow> 'a audio"
  whisper_loaded :: bool
  model_transcribe :: "'a filesystem \<Rightarrow> path \<Rightarrow> whisper_error + whisper_result"
  classify_word :: "string \<Rightarrow> bool"
  stop_at :: "nat option"
  unexpected :: "site \<Rightarrow> bool"
  elapsed :: string

text \<open>moviepy's \<open>VideoFileClip\<close> and \<open>AudioFileClip\<close>; \<open>None\<close> is a raised exception.\<close>

definition VideoFileClip :: "'a filesystem \<Rightarrow> path \<Rightarrow> 'a video option" where
  "VideoFileClip fs p = (case fmlookup fs p of Some (File (Video v)) \<Rightarrow> Some v | _ \<Rightarrow> None)"

definition AudioFileClip :: "'a filesystem \<Rightarrow> path \<Rightarrow> 'a audio option" where
  "AudioFileClip fs p = (case fmlookup fs p of Some (File (Wav a)) \<Rightarrow> Some a | _ \<Rightarrow> None)"

text \<open>audio_processor.py, \<open>extract_audio\<close>.\<close>

definition extract_audio :: "'a env \<Rightarrow> 'a filesystem \<Rightarrow> path \<Rightarrow> 'a filesystem \<times> path option" where
  "extract_audio env fs video_path =
     (case get_temp_filepath (env_config env) (uuid4 env 0) ''audio_extracted.wav'' of
        None \<Rightarrow> (fs, None)
      | Some temp_audio_path \<Rightarrow>
          (case VideoFileClip fs video_path of
             None \<Rightarrow>
               ((if os_path_exists fs temp_audio_path
                 then os_remove (env_os env) fs temp_audio_path else fs), None)
           | Some video_clip_instance \<Rightarrow>
               (case v_audio video_clip_instance of
                  None \<Rightarrow> (fs, None)
                | Some a \<Rightarrow>
                    (case write_file (env_os env) fs temp_audio_path (Wav (to_16k_mono env a)) of
                       (fs', True) \<Rightarrow>
                         (if \<not> os_path_exists fs' temp_audio_path then (fs', None)
                          else (fs', Some temp_audio_path))
                     | (fs', False) \<Rightarrow>
                         ((if os_path_exists fs' temp_audio_path
                           then os_remove (env_os env) fs' temp_audio_path else fs'), None)))))"

text \<open>stt_processor.py, lines 137-162 of \<open>transcribe_audio\<close>: the words kept from one segment.\<close>

fun parse_words :: "raw_word list \<Rightarrow> word_item list" where
  "parse_words [] = []"
| "parse_words (word_info # rest) =
     (let word = strip (rw_word word_info) in
      if word \<noteq> [] then
        (case (rw_start word_info, rw_end word_info) of
           (Some start_f, Some end_f) \<Rightarrow>
             (if end_f \<ge> start_f
              then \<lparr> wi_word = word, wi_start = Some start_f, wi_end = Some end_f \<rparr> # parse_words rest
              else parse_words rest)
         | _ \<Rightarrow> parse_words rest)
      else parse_words rest)"

text \<open>
  stt_processor.py, \<open>transcribe_audio\<close>: the messages passed to the progress callback, in
  order, and the result (\<open>None\<close> on failure, which an empty list is not).
\<close>

definition transcribe_audio ::
  "'a env \<Rightarrow> 'a filesystem \<Rightarrow> path \<Rightarrow> string list \<times> word_item list option" where
  "transcribe_audio env fs audio_path =
     (if \<not> whisper_loaded env then ([''Error: Whisper model not loaded.''], None)
      else (case model_transcribe env fs audio_path of
              Inl Whisper_file_not_found \<Rightarrow>
                ([''Transcription started...'', ''Error: Audio file not found.''], None)
            | Inl Whisper_out_of_memory \<Rightarrow>
                ([''Transcription started...'', ''Error: Out of memory during transcription.''], None)
            | Inl Whisper_runtime_error \<Rightarrow>
                ([''Transcription started...'', ''Error: Transcription runtime error.''], None)
            | Inl Whisper_other_error \<Rightarrow>
                ([''Transcription started...'', ''Error: Unexpected transcription error.''], None)
            | Inr result \<Rightarrow>
                ([''Transcription started...'', ''Parsing transcription results...''],
                 (if strip (wr_text result) = [] then Some []
                  else Some (concat (map parse_words (wr_segments result)))))))"

text \<open>\<open>os.remove\<close> of the output in the \<open>except\<close> branch of \<open>reassemble_video\<close>.\<close>

definition remove_incomplete_output :: "os_env \<Rightarrow> 'a filesystem \<Rightarrow> path \<Rightarrow> 'a filesystem" where
  "remove_incomplete_output os fs output_video_path =
     (if os_path_exists fs output_video_path then os_remove os fs output_video_path else fs)"

text \<open>
  video_processor.py, \<open>reassemble_video\<close>. The duration of the censored audio is its length
  in seconds (the branch for an unknown audio duration, whose assignment on line 48 is
  indented out of its \<open>if\<close>, is not reached); the audio is cut to the video's duration
  when it is longer by more than a second. The temporary file that \<open>write_videofile\<close> uses
  for muxing and removes itself is left out.
\<close>

definition reassemble_video ::
  "'a env \<Rightarrow> 'a filesystem \<Rightarrow> path \<Rightarrow> path \<Rightarrow> path \<Rightarrow> 'a filesystem \<times> bool" where
  "reassemble_video env fs original_video_path censored_audio_path output_video_path =
     (if \<not> os_path_isfile fs original_video_path then (fs, False)
      else if \<not> os_path_isfile fs censored_audio_path then (fs, False)
      else (case VideoFileClip fs original_video_path of
              None \<Rightarrow> (remove_incomplete_output (env_os env) fs output_video_path, False)
            | Some video_clip \<Rightarrow>
                (case v_duration video_clip of
                   None \<Rightarrow> (fs, False)
                 | Some video_duration \<Rightarrow>
                     (case AudioFileClip fs censored_audio_path of
                        None \<Rightarrow> (remove_incomplete_output (env_os env) fs output_video_path, False)
                      | Some audio_clip \<Rightarrow>
                          (let audio_duration = real_of_int (len audio_clip) / 1000;
                               duration_diff = \<bar>video_duration - audio_duration\<bar>;
                               audio_clip' =
                                 (if duration_diff > 1 \<and> audio_duration > video_duration
                                  then take (nat \<lfloor>video_duration * 1000\<rfloor>) audio_clip
                                  else audio_clip);
                               final_clip = \<lparr> v_picture = v_picture video_clip,
                                              v_duration = Some video_duration,
                                              v_audio = Some audio_clip' \<rparr>
                           in (case write_file (env_os env) fs output_video_path (Video final_clip) of
                                 (fs', True) \<Rightarrow>
                                   (if \<not> os_path_exists fs' output_video_path then (fs', False)
                                    else (fs', True))
                               | (fs', False) \<Rightarrow>
                                   (remove_incomplete_output (env_os env) fs' output_video_path, False)))))))"

section \<open>The workflow (workflow.py)\<close>

text \<open>
  What the three callbacks receive, in the order in which the thread of \<open>run\<close> calls them.
  A callback records the call and returns.
\<close>

datatype event = Status string | Progress real | Completion bool "path option"

text \<open>The constructor arguments of \<open>ProcessingWorkflow\<close>; a callback flag says whether one was given.\<close>

record workflow =
  wf_video_path :: path
  wf_output_dir :: path
  wf_status_callback :: bool
  wf_progress_callback :: bool

text \<open>
  What a run changes: the file system, the events delivered to the three callbacks so
  far, the two fields of \<open>self\<close> and the two local variables that the \<open>finally\<close> block
  reads, and the number of reads of the stop flag made so far.
\<close>

record 'a run_state =
  st_fs :: "'a filesystem"
  st_events :: "event list"
  st_temp_audio_original :: "path option"
  st_temp_audio_censored :: "path option"
  st_final_output_path :: "path option"
  st_success :: bool
  st_reads :: nat

definition initial_state :: "'a filesystem \<Rightarrow> 'a run_state" where
  "initial_state fs = \<lparr> st_fs = fs, st_events = [], st_temp_audio_original = None,
      st_temp_audio_censored = None, st_final_output_path = None, st_success = False,
      st_reads = 0 \<rparr>"

text \<open>How a stretch of the \<open>try\<close> block ends: it runs on, it executes \<open>return\<close>, or it raises.\<close>

datatype flow = Continue | Return | Raise

definition update_status :: "workflow \<Rightarrow> string \<Rightarrow> 'a run_state \<Rightarrow> 'a run_state" where
  "update_status self message st =
     (if wf_status_callback self then st\<lparr>st_events := st_events st @ [Status message]\<rparr> else st)"

definition update_progress :: "workflow \<Rightarrow> int \<Rightarrow> 'a run_state \<Rightarrow> 'a run_state" where
  "update_progress self v st =
     (if wf_progress_callback self
      then st\<lparr>st_events := st_events st @ [Progress (max 0 (min 1 (real_of_int v / 100)))]\<rparr>
      else st)"

text \<open>\<open>self._stop_requested.is_set()\<close>: the value read, and the state after the read.\<close>

definition is_set :: "'a env \<Rightarrow> 'a run_state \<Rightarrow> bool" where
  "is_set env st = (case stop_at env of None \<Rightarrow> False | Some n \<Rightarrow> n \<le> st_reads st)"

definition after_read :: "'a run_state \<Rightarrow> 'a run_state" where
  "after_read st = st\<lparr>st_reads := st_reads st + 1\<rparr>"

text \<open>
  \<open>_check_stop_or_error\<close>; \<open>error_condition\<close> is the test the call makes of its result
  (\<open>result is None\<close> with \<open>check_none\<close>, \<open>not result\<close> without).
\<close>

definition check_stop_or_error ::
  "workflow \<Rightarrow> 'a env \<Rightarrow> bool \<Rightarrow> string \<Rightarrow> 'a run_state \<Rightarrow> bool \<times> 'a run_state" where
  "check_stop_or_error self env error_condition error_message st =
     (if is_set env st then (True, update_status self ''Processing stopped by user.'' (after_read st))
      else if error_condition then (True, update_status self error_message (after_read st))
      else (False, after_read st))"

definition falsy :: "path option \<Rightarrow> bool" where
  "falsy r = (case r of None \<Rightarrow> True | Some p \<Rightarrow> p = [])"

text \<open>Lines 75-89: the loop over the transcribed words, from index \<open>i\<close>.\<close>

fun classify_loop ::
  "workflow \<Rightarrow> 'a env \<Rightarrow> nat \<Rightarrow> nat \<Rightarrow> word_item list \<Rightarrow> (real \<times> real) list \<Rightarrow> 'a run_state
     \<Rightarrow> flow \<times> (real \<times> real) list \<times> 'a run_state" where
  "classify_loop self env num_words i [] segments_to_censor st = (Continue, segments_to_censor, st)"
| "classify_loop self env num_words i (item # items) segments_to_censor st =
     (if is_set env st then (Return, segments_to_censor, after_read st)
      else
        (let st1 = after_read st;
             present = (wi_word item \<noteq> [] \<and> wi_start item \<noteq> None \<and> wi_end item \<noteq> None)
         in if present \<and> unexpected env (At_classify i) then (Raise, segments_to_censor, st1)
            else
              (let segments' =
                     (case (wi_start item, wi_end item) of
                        (Some start_time, Some end_time) \<Rightarrow>
                          (if wi_word item \<noteq> [] \<and> classify_word env (wi_word item)
                           then segments_to_censor @ [(start_time, end_time)]
                           else segments_to_censor)
                      | _ \<Rightarrow> segments_to_censor);
                   st2 = (if i mod 50 = 0 \<or> i = num_words - 1
                          then update_progress self (50 + (20 * (int i + 1)) div int num_words) st1
                          else st1)
               in classify_loop self env num_words (i + 1) items segments' st2)))"

text \<open>Lines 110-120: the output name, with a counter appended while the name is taken.\<close>

definition numbered_output :: "path \<Rightarrow> string \<Rightarrow> nat \<Rightarrow> path" where
  "numbered_output output_dir base_name counter =
     os_path_join output_dir (base_name @ ''_censored_'' @ show_nat counter @ ''.mp4'')"

function next_free_output :: "'a filesystem \<Rightarrow> path \<Rightarrow> string \<Rightarrow> nat \<Rightarrow> path" where
  "next_free_output fs output_dir base_name counter =
     (if os_path_exists fs (numbered_output output_dir base_name counter)
      then next_free_output fs output_dir base_name (counter + 1)
      else numbered_output output_dir base_name counter)"
  by pat_completeness auto

termination
proof (relation "measure (\<lambda>(fs, output_dir, base_name, counter).
         card {k. counter \<le> k \<and> os_path_exists fs (numbered_output output_dir base_name k)})")
  show "wf (measure (\<lambda>(fs, output_dir, base_name, counter).
         card {k. counter \<le> k \<and> os_path_exists fs (numbered_output output_dir base_name k)}))"
    by simp
next
  fix fs :: "'a filesystem" and output_dir base_name :: string and counter :: nat
  assume ex: "os_path_exists fs (numbered_output output_dir base_name counter)"
  have ne: "show_nat k \<noteq> []" for k
    by (subst show_nat.simps) simp
  have dig: "a = b" if "''0123456789'' ! a = ''0123456789'' ! b" "a < 10" "b < 10" for a b :: nat
  proof -
    have "distinct ''0123456789''" by simp
    moreover have "a < length ''0123456789''" "b < length ''0123456789''" using that(2,3) by simp_all
    ultimately show ?thesis using that(1) by (simp only: nth_eq_iff_index_eq)
  qed
  have inj_show: "m = n" if "show_nat m = show_nat n" for m n
    using that
  proof (induction m arbitrary: n rule: show_nat.induct)
    case (1 m)
    show ?case
    proof (cases "m < 10")
      case True
      then have sm: "show_nat m = [''0123456789'' ! m]" by (subst show_nat.simps) simp
      have "n < 10"
      proof (rule ccontr)
        assume "\<not> n < 10"
        then have "show_nat n = show_nat (n div 10) @ [''0123456789'' ! (n mod 10)]"
          by (subst show_nat.simps) simp
        with sm "1.prems" ne [of "n div 10"] show False by (cases "show_nat (n div 10)") auto
      qed
      then have "show_nat n = [''0123456789'' ! n]" by (subst show_nat.simps) simp
      with sm "1.prems" have "''0123456789'' ! m = ''0123456789'' ! n" by simp
      then show ?thesis using True \<open>n < 10\<close> by (rule dig)
    next
      case False
      then have sm: "show_nat m = show_nat (m div 10) @ [''0123456789'' ! (m mod 10)]"
        by (subst show_nat.simps) simp
      have "\<not> n < 10"
      proof
        assume "n < 10"
        then have "show_nat n = [''0123456789'' ! n]" by (subst show_nat.simps) simp
        with sm "1.prems" ne [of "m div 10"] show False by (cases "show_nat (m div 10)") auto
      qed
      then have sn: "show_nat n = show_nat (n div 10) @ [''0123456789'' ! (n mod 10)]"
        by (subst show_nat.simps) simp
      from sm sn "1.prems" have e1: "show_nat (m div 10) = show_nat (n div 10)"
        and e2: "''0123456789'' ! (m mod 10) = ''0123456789'' ! (n mod 10)" by auto
      from "1.IH" [OF False e1] have "m div 10 = n div 10" .
      moreover from e2 have "m mod 10 = n mod 10" by (rule dig) simp_all
      ultimately show ?thesis by (metis div_mult_mod_eq)
    qed
  qed
  have inj: "inj (numbered_output output_dir base_name)"
  proof (rule injI)
    fix x y assume "numbered_output output_dir base_name x = numbered_output output_dir base_name y"
    then have "show_nat x = show_nat y"
      by (cases base_name) (auto simp: numbered_output_def os_path_join_def split: if_splits)
    then show "x = y" by (rule inj_show)
  qed
  have "finite (numbered_output output_dir base_name -` fmdom' fs)"
    by (rule finite_vimageI [OF _ inj]) simp
  moreover have "{k. os_path_exists fs (numbered_output output_dir base_name k)}
      = numbered_output output_dir base_name -` fmdom' fs"
    by (auto simp: os_path_exists_def fmdom'_alt_def fmlookup_dom_iff split: option.splits)
  ultimately have fin: "finite {k. os_path_exists fs (numbered_output output_dir base_name k)}"
    by simp
  let ?A = "{k. counter \<le> k \<and> os_path_exists fs (numbered_output output_dir base_name k)}"
  let ?B = "{k. counter + 1 \<le> k \<and> os_path_exists fs (numbered_output output_dir base_name k)}"
  have "finite ?A" using fin by simp
  moreover have "?B \<subset> ?A"
  proof
    show "?B \<subseteq> ?A" by auto
    have "counter \<in> ?A" using ex by simp
    moreover have "counter \<notin> ?B" by simp
    ultimately show "?B \<noteq> ?A" by blast
  qed
  ultimately have "card ?B < card ?A" by (rule psubset_card_mono)
  then show "((fs, output_dir, base_name, counter + 1), (fs, output_dir, base_name, counter))
      \<in> measure (\<lambda>(fs, output_dir, base_name, counter).
         card {k. counter \<le> k \<and> os_path_exists fs (numbered_output output_dir base_name k)})"
    by simp
qed

declare next_free_output.simps [simp del]

definition choose_output_path :: "'a filesystem \<Rightarrow> path \<Rightarrow> string \<Rightarrow> path" where
  "choose_output_path fs output_dir base_name =
     (let first_output = os_path_join output_dir (base_name @ ''_censored.mp4'')
      in if os_path_exists fs first_output
         then next_free_output fs output_dir base_name 1
         else first_output)"

text \<open>Steps 4 and 5 of \<open>run\<close> (lines 96-139), with the extracted audio and the flagged segments.\<close>

definition step_5 :: "workflow \<Rightarrow> 'a env \<Rightarrow> path \<Rightarrow> 'a run_state \<Rightarrow> flow \<times> 'a run_state" where
  "step_5 self env temp_audio_censored st =
     (let st1 = update_status self ''Step 5/5: Reassembling video (this may also take time)...'' st;
          base_name = stem (wf_video_path self);
          final_output_path = choose_output_path (st_fs st1) (wf_output_dir self) base_name;
          st2 = st1\<lparr>st_final_output_path := Some final_output_path\<rparr>
      in if unexpected env At_reassemble then (Raise, st2)
         else
           (case reassemble_video env (st_fs st2) (wf_video_path self) temp_audio_censored
                   final_output_path of
              (fs', reassembly_ok) \<Rightarrow>
                (let st3 = st2\<lparr>st_fs := fs'\<rparr> in
                 if \<not> reassembly_ok
                 then (Continue, update_status self ''Error: Failed to reassemble video.'' st3)
                 else if is_set env st3
                 then (Return, update_status self ''Stop requested during video reassembly.''
                                 (after_read st3))
                 else (Continue,
                       (update_progress self 100
                          (update_status self
                             (''Processing complete in '' @ elapsed env @ '' seconds!'')
                             (after_read st3)))\<lparr>st_success := True\<rparr>))))"

definition step_4 ::
  "workflow \<Rightarrow> 'a env \<Rightarrow> path \<Rightarrow> (real \<times> real) list \<Rightarrow> 'a run_state \<Rightarrow> flow \<times> 'a run_state" where
  "step_4 self env temp_audio_original segments_to_censor st =
     (let st1 = update_status self ''Step 4/5: Generating censored audio...'' st in
      if unexpected env At_temp_path then (Raise, st1)
      else
        (let r = get_temp_filepath (env_config env) (uuid4 env 1) ''audio_censored.wav'';
             st2 = st1\<lparr>st_temp_audio_censored := r\<rparr>
         in (case check_stop_or_error self env (falsy r)
                    ''Error: Could not create path for censored audio.'' st2 of
               (True, st3) \<Rightarrow> (Return, st3)
             | (False, st3) \<Rightarrow>
                 (case r of
                    None \<Rightarrow> (Return, st3)
                  | Some temp_audio_censored \<Rightarrow>
                      (if unexpected env At_censor then (Raise, st3)
                       else
                         (case censor_audio (env_pydub env) (env_os env) (env_config env)
                                 (st_fs st3) temp_audio_original segments_to_censor
                                 temp_audio_censored of
                            (fs', censored_path) \<Rightarrow>
                              (case check_stop_or_error self env (falsy censored_path)
                                      ''Error: Failed to censor audio.'' (st3\<lparr>st_fs := fs'\<rparr>) of
                                 (True, st4) \<Rightarrow> (Return, st4)
                               | (False, st4) \<Rightarrow>
                                   step_5 self env temp_audio_censored
                                     (update_progress self 85 st4))))))))"

text \<open>Step 3 (lines 65-94), with the transcribed words.\<close>

definition step_3 ::
  "workflow \<Rightarrow> 'a env \<Rightarrow> path \<Rightarrow> word_item list \<Rightarrow> 'a run_state \<Rightarrow> flow \<times> 'a run_state" where
  "step_3 self env temp_audio_original word_timestamps st =
     (let num_words = length word_timestamps;
          st1 = update_progress self 50
                  (update_status self
                     (''Step 3/5: Classifying '' @ show_nat num_words @ '' words...'') st)
      in (case classify_loop self env num_words 0 word_timestamps [] st1 of
            (Continue, segments_to_censor, st2) \<Rightarrow>
              (let st3 = update_progress self 70
                           (update_status self
                              (''Identified '' @ show_nat (length segments_to_censor)
                                 @ '' segments to censor.'') st2)
               in if is_set env st3 then (Return, after_read st3)
                  else step_4 self env temp_audio_original segments_to_censor (after_read st3))
          | (fl, segments_to_censor, st2) \<Rightarrow> (fl, st2)))"

text \<open>Step 2 (lines 56-63), with the path of the extracted audio.\<close>

definition step_2 :: "workflow \<Rightarrow> 'a env \<Rightarrow> path \<Rightarrow> 'a run_state \<Rightarrow> flow \<times> 'a run_state" where
  "step_2 self env temp_audio_original st =
     (let st1 = update_progress self 20
                  (update_status self ''Step 2/5: Transcribing audio (this may take time)...'' st)
      in if unexpected env At_transcribe then (Raise, st1)
         else
           (case transcribe_audio env (st_fs st1) temp_audio_original of
              (messages, word_timestamps) \<Rightarrow>
                (case check_stop_or_error self env (word_timestamps = None)
                        ''Error: Failed to transcribe audio.''
                        (fold (update_status self) messages st1) of
                   (True, st2) \<Rightarrow> (Return, st2)
                 | (False, st2) \<Rightarrow>
                     (case word_timestamps of
                        None \<Rightarrow> (Return, st2)
                      | Some words \<Rightarrow> step_3 self env temp_audio_original words st2))))"

text \<open>The \<open>try\<close> block of \<open>run\<close> (lines 38-139): input validation, step 1 and the rest.\<close>

definition run_try :: "workflow \<Rightarrow> 'a env \<Rightarrow> 'a run_state \<Rightarrow> flow \<times> 'a run_state" where
  "run_try self env st =
     (if wf_video_path self = [] \<or> \<not> os_path_isfile (st_fs st) (wf_video_path self)
      then (Return, update_status self ''Error: Input video file not found or invalid.'' st)
      else if wf_output_dir self = [] \<or> \<not> os_path_isdir (st_fs st) (wf_output_dir self)
      then (Return, update_status self ''Error: Output directory is invalid.'' st)
      else
        (let st1 = update_progress self 5
                     (update_status self ''Step 1/5: Extracting audio...'' st)
         in if unexpected env At_extract then (Raise, st1)
            else
              (case extract_audio env (st_fs st1) (wf_video_path self) of
                 (fs', r) \<Rightarrow>
                   (case check_stop_or_error self env (falsy r) ''Error: Failed to extract audio.''
                           (st1\<lparr>st_fs := fs', st_temp_audio_original := r\<rparr>) of
                      (True, st2) \<Rightarrow> (Return, st2)
                    | (False, st2) \<Rightarrow>
                        (case r of
                           None \<Rightarrow> (Return, st2)
                         | Some temp_audio_original \<Rightarrow>
                             step_2 self env temp_audio_original st2)))))"

text \<open>The \<open>except Exception\<close> branch (lines 142-146).\<close>

definition handle_exception :: "workflow \<Rightarrow> flow \<times> 'a run_state \<Rightarrow> 'a run_state" where
  "handle_exception self r =
     (case r of
        (Raise, st) \<Rightarrow>
          (update_status self ''Error: An unexpected error occurred. Check logs.'' st)
            \<lparr>st_success := False\<rparr>
      | (fl, st) \<Rightarrow> st)"

text \<open>The \<open>finally\<close> block (lines 147-161).\<close>

definition finalize :: "workflow \<Rightarrow> 'a env \<Rightarrow> 'a run_state \<Rightarrow> 'a run_state" where
  "finalize self env st =
     (let st1 = st\<lparr>st_fs := cleanup_temp_files (env_os env) (st_fs st)
                               [st_temp_audio_original st, st_temp_audio_censored st]\<rparr>;
          st2 = (if is_set env st1
                 then (update_status self ''Processing stopped.'' (after_read st1))
                        \<lparr>st_success := False, st_final_output_path := None\<rparr>
                 else after_read st1)
      in st2\<lparr>st_events := st_events st2 @ [Completion (st_success st2) (st_final_output_path st2)]\<rparr>)"

text \<open>\<open>ProcessingWorkflow.run\<close>.\<close>

definition run :: "workflow \<Rightarrow> 'a env \<Rightarrow> 'a filesystem \<Rightarrow> 'a run_state" where
  "run self env fs = finalize self env (handle_exception self (run_try self env (initial_state fs)))"

text \<open>The completion notifications among the events of a state.\<close>

fun is_completion :: "event \<Rightarrow> bool" where
  "is_completion (Completion ok output_path) = True"
| "is_completion e = False"

definition completions :: "'a run_state \<Rightarrow> event list" where
  "completions st = filter is_completion (st_events st)"

text \<open>
  The state in which the \<open>finally\<close> block starts: after the \<open>try\<close> block and, if it raised,
  the \<open>except\<close> branch.
\<close>

definition before_finally :: "workflow \<Rightarrow> 'a env \<Rightarrow> 'a filesystem \<Rightarrow> 'a run_state" where
  "before_finally self env fs = handle_exception self (run_try self env (initial_state fs))"

text \<open>A video of five milliseconds in which Whisper hears two words, the second one flagged.\<close>

definition demo_env :: "nat env" where
  "demo_env = \<lparr> env_pydub = tone_pydub, env_os = ideal_os, env_config = default_config,
     uuid4 = (\<lambda>n. if n = 0 then ''u0'' else ''u1''), to_16k_mono = (\<lambda>a. a),
     whisper_loaded = True,
     model_transcribe = (\<lambda>fs p. Inr \<lparr> wr_text = ''hello bad'', wr_segments =
        [[\<lparr> rw_word = '' hello'', rw_start = Some (1 / 1000), rw_end = Some (2 / 1000) \<rparr>,
          \<lparr> rw_word = '' bad'', rw_start = Some (2 / 1000), rw_end = Some (4 / 1000) \<rparr>]] \<rparr>),
     classify_word = (\<lambda>w. w = ''bad''), stop_at = None, unexpected = (\<lambda>s. False),
     elapsed = ''1.00'' \<rparr>"

definition demo_fs :: "nat filesystem" where
  "demo_fs = fmupd ''/in/v.mp4''
      (File (Video \<lparr> v_picture = 1, v_duration = Some (5 / 1000), v_audio = Some [1, 2, 3, 4, 5] \<rparr>))
      (fmupd ''/out'' Directory fmempty)"

definition demo_workflow :: workflow where
  "demo_workflow = \<lparr> wf_video_path = ''/in/v.mp4'', wf_output_dir = ''/out'',
     wf_status_callback = True, wf_progress_callback = True \<rparr>"

text \<open>
  Temporary audio paths end in \<open>.wav\<close> and output paths in \<open>.mp4\<close>; the two predicates keep
  the last character, which is what tells them apart.
\<close>

definition wav_path :: "path \<Rightarrow> bool" where
  "wav_path q \<longleftrightarrow> q \<noteq> [] \<and> last q = CHR ''v''"

definition mp4_path :: "path \<Rightarrow> bool" where
  "mp4_path p \<longleftrightarrow> p \<noteq> [] \<and> last p = CHR ''4''"

text \<open>
  What holds of the state throughout the \<open>try\<close> block: the three paths have their shapes,
  and once \<open>success\<close> is set the output path names something that exists.
\<close>

definition paths_inv :: "'a run_state \<Rightarrow> bool" where
  "paths_inv st \<longleftrightarrow>
     (case st_temp_audio_original st of None \<Rightarrow> True | Some q \<Rightarrow> wav_path q) \<and>
     (case st_temp_audio_censored st of None \<Rightarrow> True | Some q \<Rightarrow> wav_path q) \<and>
     (case st_final_output_path st of None \<Rightarrow> True | Some p \<Rightarrow> mp4_path p)"

definition success_inv :: "'a run_state \<Rightarrow> bool" where
  "success_inv st \<longleftrightarrow>
     (if st_success st
      then (case st_final_output_path st of None \<Rightarrow> False | Some p \<Rightarrow> os_path_exists (st_fs st) p)
      else True)"

definition not_succeeded :: "'a run_state \<Rightarrow> bool" where
  "not_succeeded st \<longleftrightarrow> paths_inv st \<and> \<not> st_success st"

definition run_inv :: "'a run_state \<Rightarrow> bool" where
  "run_inv st \<longleftrightarrow> paths_inv st \<and> success_inv st"

text \<open>
  Three variants of the run above: Whisper hears nothing; the same with the stop flag set
  after the last read of the \<open>try\<close> block; and Whisper not loaded.
\<close>

definition silent_env :: "nat env" where
  "silent_env = demo_env\<lparr>model_transcribe := (\<lambda>fs p. Inr \<lparr> wr_text = '' '', wr_segments = [] \<rparr>)\<rparr>"



text \<open>The file system after extraction, after censoring and after reassembly in these runs.\<close>

definition demo_fs1 :: "nat filesystem" where
  "demo_fs1 = fmupd ''/tmp/tmp_u0_audio_extracted.wav'' (File (Wav [1, 2, 3, 4, 5])) demo_fs"

definition demo_fs2 :: "nat filesystem" where
  "demo_fs2 = fmupd ''/tmp/tmp_u1_audio_censored.wav'' (File (Wav [1, 2, 3, 4, 5])) demo_fs1"

definition demo_fs3 :: "nat filesystem" where
  "demo_fs3 = fmupd ''/out/v_censored.mp4''
      (File (Video \<lparr> v_picture = 1, v_duration = Some (5 / 1000), v_audio = Some [1, 2, 3, 4, 5] \<rparr>))
      demo_fs2"

section \<open>Properties of the censor engine\<close>

subsection \<open>Conversion and clamping\<close>

lemma seconds_to_milliseconds_floor:
  "seconds_to_milliseconds (Some s) = max 0 \<lfloor>s * 1000\<rfloor>"
  unfolding seconds_to_milliseconds_def py_int_def
  by (simp add: max_def) linarith

lemma seconds_to_milliseconds_mono:
  "s \<le> t \<Longrightarrow> seconds_to_milliseconds (Some s) \<le> seconds_to_milliseconds (Some t)"
  unfolding seconds_to_milliseconds_floor by (simp add: floor_mono max.coboundedI2)

lemma seconds_to_milliseconds_nonneg: "0 \<le> seconds_to_milliseconds x"
  by (simp add: seconds_to_milliseconds_def split: option.splits)

lemma clamp_segment_bounds:
  assumes "0 \<le> D" and "clamp_segment D seg = (a, b)"
  shows "0 \<le> a \<and> a \<le> b \<and> b \<le> D"
  using assms seconds_to_milliseconds_nonneg [of "Some (fst seg)"]
  by (auto simp: clamp_segment_def Let_def)

lemma clamp_segment_start_mono:
  "fst s \<le> fst t \<Longrightarrow> fst (clamp_segment D s) \<le> fst (clamp_segment D t)"
  using seconds_to_milliseconds_mono [of "fst s" "fst t"]
  by (auto simp: clamp_segment_def Let_def)

lemma applied_intervals_bounds:
  assumes "(a, b) \<in> set (applied_intervals D segs)"
  shows "0 \<le> a \<and> a < b \<and> b \<le> D"
proof -
  from assms obtain seg where c: "clamp_segment D seg = (a, b)" and lt: "a < b"
    by (auto simp: applied_intervals_def)
  from c lt show ?thesis
    using seconds_to_milliseconds_nonneg [of "Some (fst seg)"]
    by (auto simp: clamp_segment_def Let_def split: if_splits)
qed

lemma applied_intervals_sorted: "sorted (map fst (applied_intervals D segs))"
proof -
  have "sorted (map fst (sort_key fst segs))" by simp
  then have "sorted_wrt (\<lambda>s t. fst s \<le> fst t) (sort_key fst segs)"
    by (simp add: sorted_map)
  then have "sorted_wrt (\<lambda>s t. fst (clamp_segment D s) \<le> fst (clamp_segment D t)) (sort_key fst segs)"
    by (rule sorted_wrt_mono_rel [rotated]) (simp add: clamp_segment_start_mono)
  then have "sorted (map fst (map (clamp_segment D) (sort_key fst segs)))"
    by (simp add: sorted_map sorted_wrt_map)
  then show ?thesis
    unfolding applied_intervals_def sorted_map by (rule sorted_wrt_filter)
qed

subsection \<open>The loop\<close>

lemma censor_loop_fold:
  "censor_loop lib f D segs (a, n) =
     (foldl (apply_interval lib f) a
        (filter (\<lambda>(start_ms, end_ms). \<not> end_ms - start_ms \<le> 0) (map (clamp_segment D) segs)),
      n + length (filter (\<lambda>(start_ms, end_ms). \<not> end_ms - start_ms \<le> 0) (map (clamp_segment D) segs)))"
  by (induction segs arbitrary: a n) (auto simp: apply_interval_def split: prod.splits)

lemma censor_buffer_plan:
  "censor_buffer lib f audio segs =
     (foldl (apply_interval lib f) audio (applied_intervals (len audio) segs),
      length (applied_intervals (len audio) segs))"
  by (simp add: censor_buffer_def censor_loop_fold applied_intervals_def)

lemma scenario_1_plan:
  "applied_intervals 20000 [(2.0, 2.5), (2.4, 3.0), (10, 9)] = [(2000, 2500), (2400, 3000)]"
  by (simp add: applied_intervals_def clamp_segment_def seconds_to_milliseconds_def py_int_def)

lemma copyfile_ok:
  assumes "fmlookup fs src = Some (File c)" "src \<noteq> dst" "\<not> os_path_isdir fs dst"
    "write_result os dst = Written"
  shows "copyfile os fs src dst = (fmupd dst (File c) fs, True)"
  using assms by (simp add: copyfile_def write_file_def)

text \<open>
  A tone generator that raises costs \<open>generate_beep\<close> nothing but the tone: it returns
  silence of the duration asked for. And \<open>censor_audio\<close> returns its output path whatever
  the tone library does, once the source decodes and the output can be written.
\<close>

lemma generate_beep_fallback:
  assumes "0 < d" and "Sine_to_audio_segment lib f d = None"
  shows "generate_beep lib d f = silent lib d" and "len (generate_beep lib d f) = d"
  using assms by (simp_all add: generate_beep_def silent_def len_def)

lemma censor_audio_returns_path:
  assumes "fmlookup fs src = Some (File (Wav audio))" and "src \<noteq> dst"
    and "\<not> os_path_isdir fs dst" and "write_result os dst = Written"
  shows "snd (censor_audio lib os cfg fs src segs dst) = Some dst"
proof -
  from assms have cp: "copyfile os fs src dst = (fmupd dst (File (Wav audio)) fs, True)"
    by (simp add: copyfile_ok)
  from assms have wav: "from_wav fs src = Inr audio" by (simp add: from_wav_def)
  from assms have wr: "write_file os fs dst c = (fmupd dst (File c) fs, True)" for c
    by (simp add: write_file_def)
  show ?thesis
    by (simp add: censor_audio_def cp wav wr split: prod.splits)
qed

text \<open>The plan and the two overlays of the runs below.\<close>

lemma source_16k_plan:
  "applied_intervals (len source_16k) [(1 / 1000, 3 / 1000)] = [(1, 3)]"
  by (simp add: applied_intervals_def clamp_segment_def seconds_to_milliseconds_def
        py_int_def len_def source_16k_def)

lemma default_pydub_beep: "generate_beep default_pydub 2 440 = [(44100, 7), (44100, 7)]"
  by (simp add: generate_beep_def default_pydub_def numeral_2_eq_2)

lemma failing_pydub_beep: "generate_beep failing_pydub 2 440 = [(11025, 0), (11025, 0)]"
  by (simp add: generate_beep_def silent_def failing_pydub_def default_pydub_def numeral_2_eq_2)

lemma default_pydub_overlay:
  "overlay default_pydub source_16k [(44100, 7), (44100, 7)] 1
     = [(44100, 1), (44100, 9), (44100, 10), (44100, 4), (44100, 5)]"
  by (simp add: overlay_def default_pydub_def AudioSegment_sync_def set_frame_rate_def
        frame_rate_def audioop_add_def source_16k_def)

lemma failing_pydub_overlay:
  "overlay failing_pydub source_16k [(11025, 0), (11025, 0)] 1 = source_16k"
  by (simp add: overlay_def failing_pydub_def default_pydub_def AudioSegment_sync_def
        set_frame_rate_def frame_rate_def audioop_add_def source_16k_def)

lemma default_pydub_censor_buffer:
  "censor_buffer default_pydub 440 source_16k [(1 / 1000, 3 / 1000)]
     = ([(44100, 1), (44100, 9), (44100, 10), (44100, 4), (44100, 5)], 1)"
  unfolding censor_buffer_plan source_16k_plan
  by (simp add: apply_interval_def default_pydub_beep default_pydub_overlay)

lemma failing_pydub_censor_buffer:
  "censor_buffer failing_pydub 440 source_16k [(1 / 1000, 3 / 1000)] = (source_16k, 1)"
  unfolding censor_buffer_plan source_16k_plan
  by (simp add: apply_interval_def failing_pydub_beep failing_pydub_overlay)

subsection \<open>The claims about the censor engine\<close>

text \<open>
  C1, as the specification states it: overlapping or touching intervals are merged, so no
  two adjacent intervals of the plan overlap or touch, and the flagged intervals
  [(2.0,2.5),(2.4,3.0),(10,9)] with duration 20 give the plan [(2.0,3.0)]. The code has no
  merging step: on these intervals the loop applies 2000-2500 ms and then 2400-3000 ms.
\<close>

theorem plan_not_merged_counterexample:
  "\<not> non_overlapping (applied_intervals 20000 [(2.0, 2.5), (2.4, 3.0), (10, 9)]) \<and>
   applied_intervals 20000 [(2.0, 2.5), (2.4, 3.0), (10, 9)] \<noteq> [(2000, 3000)]"
  unfolding scenario_1_plan by simp

text \<open>
  C1, amended: the intervals the loop applies are ordered by start, each of them is
  non-empty and lies within the audio, and intervals that overlap or touch are applied one
  after the other without being merged. For the flagged intervals
  [(2.0,2.5),(2.4,3.0),(10,9)] and a duration of 20 s the applied intervals are
  2000-2500 ms and 2400-3000 ms; the reversed interval is dropped.
\<close>

theorem applied_intervals_ordered_not_merged:
  "sorted (map fst (applied_intervals D segs)) \<and>
   (\<forall>(start_ms, end_ms) \<in> set (applied_intervals D segs).
       0 \<le> start_ms \<and> start_ms < end_ms \<and> end_ms \<le> D) \<and>
   applied_intervals 20000 [(2.0, 2.5), (2.4, 3.0), (10, 9)] = [(2000, 2500), (2400, 3000)]"
  using applied_intervals_sorted [of D segs] applied_intervals_bounds [of _ _ D segs] scenario_1_plan
  by auto

theorem applied_intervals_ordered_not_merged_witness:
  "sorted (map fst (applied_intervals 20000 [(2.4, 3.0), (10, 9), (2.0, 2.5)])) \<and>
   applied_intervals 20000 [(2.0, 2.5), (2.4, 3.0), (10, 9)] = [(2000, 2500), (2400, 3000)]"
  using applied_intervals_ordered_not_merged [of 20000 "[(2.4, 3.0), (10, 9), (2.0, 2.5)]"]
  by blast

text \<open>
  C4: the buffer the engine produces has the duration of the source, but the audio
  outside the intervals is not left as it was, and the intervals are not replaced by the
  tone. On five milliseconds of audio at 16000 Hz, as \<open>extract_audio\<close> writes it, with the
  interval from 1 ms to 3 ms flagged, \<open>overlay\<close> first converts the whole track to the
  44100 Hz of the tone, which rewrites the frames at 0, 3 and 4 ms as well, and then adds
  the tone to the frames at 1 and 2 ms, which still carry the source audio. The docstring
  of \<open>censor_audio\<close> (Replaces specified time segments in an audio file with beep sounds)
  and its comment on line 157 (overlay replaces the section of the first sound with the
  second) ask for what the specification asks.
\<close>

theorem overlay_converts_track_and_mixes_tone:
  "censor_buffer default_pydub 440 source_16k [(1 / 1000, 3 / 1000)]
     = ([(44100, 1), (44100, 9), (44100, 10), (44100, 4), (44100, 5)], 1) \<and>
   length (fst (censor_buffer default_pydub 440 source_16k [(1 / 1000, 3 / 1000)]))
     = length source_16k \<and>
   fst (censor_buffer default_pydub 440 source_16k [(1 / 1000, 3 / 1000)]) ! 0 \<noteq> source_16k ! 0 \<and>
   fst (censor_buffer default_pydub 440 source_16k [(1 / 1000, 3 / 1000)]) ! 3 \<noteq> source_16k ! 3 \<and>
   fst (censor_buffer default_pydub 440 source_16k [(1 / 1000, 3 / 1000)]) ! 4 \<noteq> source_16k ! 4 \<and>
   generate_beep default_pydub 2 440 = [(44100, 7), (44100, 7)] \<and>
   fst (censor_buffer default_pydub 440 source_16k [(1 / 1000, 3 / 1000)]) ! 1
     \<noteq> generate_beep default_pydub 2 440 ! 0 \<and>
   fst (censor_buffer default_pydub 440 source_16k [(1 / 1000, 3 / 1000)]) ! 2
     \<noteq> generate_beep default_pydub 2 440 ! 1 \<and>
   censor_audio default_pydub ideal_os default_config
       (fmupd ''a.wav'' (File (Wav source_16k)) fmempty) ''a.wav'' [(1 / 1000, 3 / 1000)] ''b.wav''
     = (fmupd ''b.wav'' (File (Wav [(44100, 1), (44100, 9), (44100, 10), (44100, 4), (44100, 5)]))
          (fmupd ''a.wav'' (File (Wav source_16k)) fmempty),
        Some ''b.wav'')"
  unfolding default_pydub_censor_buffer default_pydub_beep
  by (simp add: source_16k_def censor_audio_def from_wav_def write_file_def os_path_isdir_def
        ideal_os_def default_config_def default_pydub_censor_buffer [unfolded source_16k_def])

text \<open>
  C5: with no segments the buffer is returned as it is and nothing is applied; on files,
  \<open>censor_audio\<close> with an empty list (and likewise with a list of which no interval is
  left after clamping) writes a copy of the source file to the output path and returns
  that path, which is the result of success, whenever the source can be read and the
  output written.
\<close>

theorem censor_empty_plan_copies_source:
  "censor_buffer lib f audio [] = (audio, 0) \<and>
   (fmlookup fs src = Some (File c) \<and> src \<noteq> dst \<and> \<not> os_path_isdir fs dst \<and>
    write_result os dst = Written
      \<longrightarrow> censor_audio lib os cfg fs src [] dst = (fmupd dst (File c) fs, Some dst)) \<and>
   (fmlookup fs src = Some (File (Wav audio)) \<and> applied_intervals (len audio) segs = [] \<and>
    src \<noteq> dst \<and> \<not> os_path_isdir fs dst \<and> write_result os dst = Written
      \<longrightarrow> censor_audio lib os cfg fs src segs dst = (fmupd dst (File (Wav audio)) fs, Some dst))"
proof (intro conjI impI)
  show "censor_buffer lib f audio [] = (audio, 0)"
    by (simp add: censor_buffer_def)
next
  assume "fmlookup fs src = Some (File c) \<and> src \<noteq> dst \<and> \<not> os_path_isdir fs dst \<and>
    write_result os dst = Written"
  then have "copyfile os fs src dst = (fmupd dst (File c) fs, True)"
    by (simp add: copyfile_ok)
  then show "censor_audio lib os cfg fs src [] dst = (fmupd dst (File c) fs, Some dst)"
    by (simp add: censor_audio_def)
next
  assume a: "fmlookup fs src = Some (File (Wav audio)) \<and> applied_intervals (len audio) segs = [] \<and>
    src \<noteq> dst \<and> \<not> os_path_isdir fs dst \<and> write_result os dst = Written"
  then have cp: "copyfile os fs src dst = (fmupd dst (File (Wav audio)) fs, True)"
    by (simp add: copyfile_ok)
  from a have wav: "from_wav fs src = Inr audio" by (simp add: from_wav_def)
  from a have none: "censor_buffer lib g audio segs = (audio, 0)" for g
    by (simp add: censor_buffer_plan)
  show "censor_audio lib os cfg fs src segs dst = (fmupd dst (File (Wav audio)) fs, Some dst)"
    by (simp add: censor_audio_def cp wav none)
qed

theorem censor_empty_plan_copies_source_witness:
  "censor_audio tone_pydub ideal_os default_config
      (fmupd ''a.wav'' (File (Wav [1, 2, 3])) fmempty) ''a.wav'' [] ''b.wav''
   = (fmupd ''b.wav'' (File (Wav [1, 2, 3])) (fmupd ''a.wav'' (File (Wav [1, 2, 3])) fmempty),
      Some ''b.wav'')"
  using censor_empty_plan_copies_source [of tone_pydub 440 "[]"
      "fmupd ''a.wav'' (File (Wav [1, 2, 3])) fmempty" "''a.wav''" "Wav [1, 2, 3]" "''b.wav''"
      ideal_os default_config "[]"]
  by (simp add: os_path_isdir_def ideal_os_def)

text \<open>
  C7: an endpoint in seconds becomes \<open>max 0 (floor (seconds * 1000))\<close> milliseconds; every
  clamped segment satisfies 0 <= start <= end <= D for the duration D of the audio; the
  applied intervals are the clamped segments with start < end (the others are dropped),
  so each satisfies 0 <= start < end <= D; and the loop overlays exactly these.
\<close>

theorem applied_intervals_clamped:
  "seconds_to_milliseconds (Some s) = max 0 \<lfloor>s * 1000\<rfloor> \<and>
   (case clamp_segment (len audio) seg of
      (start_ms, end_ms) \<Rightarrow> 0 \<le> start_ms \<and> start_ms \<le> end_ms \<and> end_ms \<le> len audio) \<and>
   applied_intervals (len audio) segs =
     filter (\<lambda>(start_ms, end_ms). start_ms < end_ms)
       (map (clamp_segment (len audio)) (sort_key fst segs)) \<and>
   (\<forall>(start_ms, end_ms) \<in> set (applied_intervals (len audio) segs).
       0 \<le> start_ms \<and> start_ms < end_ms \<and> end_ms \<le> len audio) \<and>
   censor_buffer lib f audio segs =
     (foldl (apply_interval lib f) audio (applied_intervals (len audio) segs),
      length (applied_intervals (len audio) segs))"
proof (intro conjI)
  show "seconds_to_milliseconds (Some s) = max 0 \<lfloor>s * 1000\<rfloor>"
    by (rule seconds_to_milliseconds_floor)
  show "case clamp_segment (len audio) seg of
      (start_ms, end_ms) \<Rightarrow> 0 \<le> start_ms \<and> start_ms \<le> end_ms \<and> end_ms \<le> len audio"
    using clamp_segment_bounds [of "len audio" seg] by (auto simp: len_def)
  have "(\<lambda>(start_ms :: int, end_ms). \<not> end_ms - start_ms \<le> 0) = (\<lambda>(start_ms, end_ms). start_ms < end_ms)"
    by auto
  then show "applied_intervals (len audio) segs =
     filter (\<lambda>(start_ms, end_ms). start_ms < end_ms)
       (map (clamp_segment (len audio)) (sort_key fst segs))"
    by (simp add: applied_intervals_def)
  show "\<forall>(start_ms, end_ms) \<in> set (applied_intervals (len audio) segs).
       0 \<le> start_ms \<and> start_ms < end_ms \<and> end_ms \<le> len audio"
    using applied_intervals_bounds [of _ _ "len audio" segs] by auto
  show "censor_buffer lib f audio segs =
     (foldl (apply_interval lib f) audio (applied_intervals (len audio) segs),
      length (applied_intervals (len audio) segs))"
    by (rule censor_buffer_plan)
qed

theorem applied_intervals_clamped_witness:
  "applied_intervals (len [1, 2, 3, 4, 5 :: nat]) [(1 / 1000, 3 / 1000), (4 / 1000, 41 / 10000), (- 1, 10)]
     = [(0, 5), (1, 3)] \<and>
   censor_buffer tone_pydub 440 [1, 2, 3, 4, 5 :: nat]
       [(1 / 1000, 3 / 1000), (4 / 1000, 41 / 10000), (- 1, 10)]
     = (foldl (apply_interval tone_pydub 440) [1, 2, 3, 4, 5] [(0, 5), (1, 3)], 2)"
proof -
  let ?audio = "[1, 2, 3, 4, 5 :: nat]"
  let ?segs = "[(1 / 1000, 3 / 1000), (4 / 1000, 41 / 10000), (- 1, 10 :: real)]"
  have plan: "applied_intervals (len ?audio) ?segs = [(0, 5), (1, 3)]"
    by (simp add: applied_intervals_def clamp_segment_def seconds_to_milliseconds_def
          py_int_def len_def)
  from applied_intervals_clamped [of 0 ?audio "(0, 0)" ?segs tone_pydub 440]
  have "censor_buffer tone_pydub 440 ?audio ?segs =
     (foldl (apply_interval tone_pydub 440) ?audio (applied_intervals (len ?audio) ?segs),
      length (applied_intervals (len ?audio) ?segs))"
    by blast
  then show ?thesis unfolding plan by simp
qed

text \<open>
  C8: when the tone generator raises, \<open>generate_beep\<close> returns silence of the duration of
  the interval and \<open>censor_audio\<close> returns its output path, but the silence is not
  substituted for the interval: \<open>overlay\<close> adds it to the audio, which leaves every frame of
  the interval as it was. On five milliseconds of audio at 16000 Hz with the interval from
  1 ms to 3 ms flagged, the engine counts one applied interval and writes the source
  audio, the flagged interval included. The fallback is meant to silence the interval:
  the comment on line 157 takes \<open>overlay\<close> to replace the section it is laid over.
\<close>

theorem tone_failure_leaves_interval_audible:
  "generate_beep failing_pydub 2 440 = [(11025, 0), (11025, 0)] \<and>
   censor_buffer failing_pydub 440 source_16k [(1 / 1000, 3 / 1000)] = (source_16k, 1) \<and>
   fst (censor_buffer failing_pydub 440 source_16k [(1 / 1000, 3 / 1000)]) ! 1 = (16000, 2) \<and>
   fst (censor_buffer failing_pydub 440 source_16k [(1 / 1000, 3 / 1000)]) ! 2 = (16000, 3) \<and>
   censor_audio failing_pydub ideal_os default_config
       (fmupd ''a.wav'' (File (Wav source_16k)) fmempty) ''a.wav'' [(1 / 1000, 3 / 1000)] ''b.wav''
     = (fmupd ''b.wav'' (File (Wav source_16k)) (fmupd ''a.wav'' (File (Wav source_16k)) fmempty),
        Some ''b.wav'')"
  unfolding failing_pydub_censor_buffer failing_pydub_beep
  by (simp add: source_16k_def censor_audio_def from_wav_def write_file_def os_path_isdir_def
        ideal_os_def default_config_def failing_pydub_censor_buffer [unfolded source_16k_def])

section \<open>Properties of the workflow\<close>

subsection \<open>Completion notifications\<close>

lemma completions_update_status [simp]:
  "completions (update_status self m st) = completions st"
  by (simp add: completions_def update_status_def)
lemma completions_update_progress [simp]:
  "completions (update_progress self v st) = completions st"
  by (simp add: completions_def update_progress_def)
lemma completions_after_read [simp]: "completions (after_read st) = completions st"
  by (simp add: completions_def after_read_def)
lemma completions_fields [simp]:
  "completions (st\<lparr>st_fs := a\<rparr>) = completions st"
  "completions (st\<lparr>st_temp_audio_original := b\<rparr>) = completions st"
  "completions (st\<lparr>st_temp_audio_censored := c\<rparr>) = completions st"
  "completions (st\<lparr>st_final_output_path := d\<rparr>) = completions st"
  "completions (st\<lparr>st_success := e\<rparr>) = completions st"
  by (simp_all add: completions_def)
lemma completions_fold_status [simp]:
  "completions (fold (update_status self) ms st) = completions st"
  by (induction ms arbitrary: st) simp_all
lemma completions_check [simp]:
  "completions (snd (check_stop_or_error self env c m st)) = completions st"
  by (simp add: check_stop_or_error_def)
lemma completions_classify_loop [simp]:
  "completions (snd (snd (classify_loop self env n i items segs st))) = completions st"
  by (induction items arbitrary: i segs st) (simp_all add: Let_def split: prod.splits option.splits)
lemma completions_step_5 [simp]:
  "completions (snd (step_5 self env cens st)) = completions st"
  by (simp add: step_5_def Let_def split: prod.splits)
lemma snd_check_eq: "check_stop_or_error self env c m st = (b, st') \<Longrightarrow> completions st' = completions st"
  using completions_check [of self env c m st] by simp
lemma completions_step_4 [simp]:
  "completions (snd (step_4 self env orig segs st)) = completions st"
  by (auto simp: step_4_def Let_def split: prod.splits option.splits bool.splits dest!: snd_check_eq)
lemma classify_eq: "classify_loop self env n i items segs st = (fl, segs', st') \<Longrightarrow> completions st' = completions st"
  using completions_classify_loop [of self env n i items segs st] by simp
lemma completions_step_3 [simp]:
  "completions (snd (step_3 self env orig ws st)) = completions st"
  by (auto simp: step_3_def Let_def split: prod.splits flow.splits dest!: classify_eq)
lemma completions_step_2 [simp]:
  "completions (snd (step_2 self env orig st)) = completions st"
  by (auto simp: step_2_def Let_def split: prod.splits option.splits bool.splits dest!: snd_check_eq)
lemma completions_run_try [simp]:
  "completions (snd (run_try self env st)) = completions st"
  by (auto simp: run_try_def Let_def split: prod.splits option.splits bool.splits dest!: snd_check_eq)
lemma completions_before_finally [simp]:
  "completions (before_finally self env fs) = []"
proof -
  have "completions (handle_exception self r) = completions (snd r)" for r :: "flow \<times> 'a run_state"
    by (cases r) (simp add: handle_exception_def split: flow.splits)
  then show ?thesis
    by (simp add: before_finally_def) (simp add: completions_def initial_state_def)
qed
lemma run_finalize: "run self env fs = finalize self env (before_finally self env fs)"
  by (simp add: run_def before_finally_def)
lemma events_finalize:
  "st_events (finalize self env st) =
     st_events (if is_set env st then update_status self ''Processing stopped.'' st else st)
       @ [Completion (st_success (finalize self env st)) (st_final_output_path (finalize self env st))]"
  by (simp add: finalize_def Let_def is_set_def after_read_def update_status_def
        split: option.splits)
lemma completions_finalize:
  "completions (finalize self env st) =
     completions st @ [Completion (st_success (finalize self env st)) (st_final_output_path (finalize self env st))]"
  unfolding completions_def events_finalize by (simp add: update_status_def)

subsection \<open>The shape of temporary and output paths\<close>

lemma os_path_join_last:
  "b \<noteq> [] \<Longrightarrow> os_path_join a b \<noteq> [] \<and> last (os_path_join a b) = last b"
  by (simp add: os_path_join_def)

lemma safe_suffix_extracted:
  "strip (filter (\<lambda>c. isalnum c \<or> c \<in> set ''._-'') ''audio_extracted.wav'') = ''audio_extracted.wav''"
  by (simp add: strip_def isalnum_def isspace_def)

lemma safe_suffix_censored:
  "strip (filter (\<lambda>c. isalnum c \<or> c \<in> set ''._-'') ''audio_censored.wav'') = ''audio_censored.wav''"
  by (simp add: strip_def isalnum_def isspace_def)

lemma get_temp_filepath_extracted:
  "get_temp_filepath cfg u ''audio_extracted.wav'' =
     map_option (\<lambda>d. os_path_join d (''tmp_'' @ u @ ''_audio_extracted.wav'')) (temp_dir_path cfg)"
  unfolding get_temp_filepath_def safe_suffix_extracted by (simp split: option.splits)

lemma get_temp_filepath_censored:
  "get_temp_filepath cfg u ''audio_censored.wav'' =
     map_option (\<lambda>d. os_path_join d (''tmp_'' @ u @ ''_audio_censored.wav'')) (temp_dir_path cfg)"
  unfolding get_temp_filepath_def safe_suffix_censored by (simp split: option.splits)

lemma temp_path_extracted_wav:
  "get_temp_filepath cfg u ''audio_extracted.wav'' = Some q \<Longrightarrow> wav_path q"
  unfolding get_temp_filepath_extracted wav_path_def
  using os_path_join_last [of "''tmp_'' @ u @ ''_audio_extracted.wav''"] by auto

lemma temp_path_censored_wav:
  "get_temp_filepath cfg u ''audio_censored.wav'' = Some q \<Longrightarrow> wav_path q"
  unfolding get_temp_filepath_censored wav_path_def
  using os_path_join_last [of "''tmp_'' @ u @ ''_audio_censored.wav''"] by auto

lemma numbered_output_mp4: "mp4_path (numbered_output d b k)"
  unfolding numbered_output_def mp4_path_def
  using os_path_join_last [of "b @ ''_censored_'' @ show_nat k @ ''.mp4''" d] by simp

lemma next_free_output_numbered: "\<exists>k. next_free_output fs d b c = numbered_output d b k"
  by (induction fs d b c rule: next_free_output.induct) (subst next_free_output.simps, auto)

lemma next_free_output_free: "\<not> os_path_exists fs (next_free_output fs d b c)"
  by (induction fs d b c rule: next_free_output.induct) (subst next_free_output.simps, auto)

lemma choose_output_path_mp4: "mp4_path (choose_output_path fs d b)"
proof -
  have "mp4_path (os_path_join d (b @ ''_censored.mp4''))"
    unfolding mp4_path_def using os_path_join_last [of "b @ ''_censored.mp4''" d] by simp
  moreover have "mp4_path (next_free_output fs d b 1)"
    using next_free_output_numbered [of fs d b 1] numbered_output_mp4 by auto
  ultimately show ?thesis by (simp add: choose_output_path_def Let_def)
qed

lemma choose_output_path_free: "\<not> os_path_exists fs (choose_output_path fs d b)"
  by (simp add: choose_output_path_def Let_def next_free_output_free)


lemma extract_audio_wav: "extract_audio env fs v = (fs', Some q) \<Longrightarrow> wav_path q"
  by (auto simp: extract_audio_def split: option.splits prod.splits bool.splits if_splits
        dest: temp_path_extracted_wav)


subsection \<open>Invariants of the try block\<close>

lemma update_status_fields [simp]:
  "st_fs (update_status self m st) = st_fs st"
  "st_temp_audio_original (update_status self m st) = st_temp_audio_original st"
  "st_temp_audio_censored (update_status self m st) = st_temp_audio_censored st"
  "st_final_output_path (update_status self m st) = st_final_output_path st"
  "st_success (update_status self m st) = st_success st"
  "st_reads (update_status self m st) = st_reads st"
  by (simp_all add: update_status_def)

lemma update_progress_fields [simp]:
  "st_fs (update_progress self v st) = st_fs st"
  "st_temp_audio_original (update_progress self v st) = st_temp_audio_original st"
  "st_temp_audio_censored (update_progress self v st) = st_temp_audio_censored st"
  "st_final_output_path (update_progress self v st) = st_final_output_path st"
  "st_success (update_progress self v st) = st_success st"
  "st_reads (update_progress self v st) = st_reads st"
  by (simp_all add: update_progress_def)

lemma after_read_fields [simp]:
  "st_fs (after_read st) = st_fs st"
  "st_events (after_read st) = st_events st"
  "st_temp_audio_original (after_read st) = st_temp_audio_original st"
  "st_temp_audio_censored (after_read st) = st_temp_audio_censored st"
  "st_final_output_path (after_read st) = st_final_output_path st"
  "st_success (after_read st) = st_success st"
  "st_reads (after_read st) = st_reads st + 1"
  by (simp_all add: after_read_def)

lemma fold_status_fields [simp]:
  "st_fs (fold (update_status self) ms st) = st_fs st"
  "st_temp_audio_original (fold (update_status self) ms st) = st_temp_audio_original st"
  "st_temp_audio_censored (fold (update_status self) ms st) = st_temp_audio_censored st"
  "st_final_output_path (fold (update_status self) ms st) = st_final_output_path st"
  "st_success (fold (update_status self) ms st) = st_success st"
  "st_reads (fold (update_status self) ms st) = st_reads st"
  by (induction ms arbitrary: st; simp)+

lemma check_fields:
  assumes "check_stop_or_error self env c m st = (b, st')"
  shows "st_fs st' = st_fs st \<and> st_temp_audio_original st' = st_temp_audio_original st \<and>
     st_temp_audio_censored st' = st_temp_audio_censored st \<and>
     st_final_output_path st' = st_final_output_path st \<and> st_success st' = st_success st \<and>
     st_reads st' = st_reads st + 1"
  using assms by (auto simp: check_stop_or_error_def split: if_splits)

lemma classify_loop_fields:
  assumes "classify_loop self env n i items segs st = (fl, segs', st')"
  shows "st_fs st' = st_fs st \<and> st_temp_audio_original st' = st_temp_audio_original st \<and>
     st_temp_audio_censored st' = st_temp_audio_censored st \<and>
     st_final_output_path st' = st_final_output_path st \<and> st_success st' = st_success st"
  using assms
  by (induction items arbitrary: i segs st) (auto simp: Let_def split: if_splits)

lemma not_succeeded_run_inv: "not_succeeded st \<Longrightarrow> run_inv st"
  by (simp add: not_succeeded_def run_inv_def success_inv_def)

lemma not_succeeded_cong:
  "st_temp_audio_original st' = st_temp_audio_original st \<Longrightarrow>
   st_temp_audio_censored st' = st_temp_audio_censored st \<Longrightarrow>
   st_final_output_path st' = st_final_output_path st \<Longrightarrow>
   st_success st' = st_success st \<Longrightarrow> not_succeeded st' = not_succeeded st"
  by (simp add: not_succeeded_def paths_inv_def)

lemma not_succeeded_simps [simp]:
  "not_succeeded (update_status self m st) = not_succeeded st"
  "not_succeeded (update_progress self v st) = not_succeeded st"
  "not_succeeded (after_read st) = not_succeeded st"
  "not_succeeded (fold (update_status self) ms st) = not_succeeded st"
  "not_succeeded (st\<lparr>st_fs := x\<rparr>) = not_succeeded st"
  by (rule not_succeeded_cong; simp)+

lemma not_succeeded_check [simp]: "not_succeeded (snd (check_stop_or_error self env c m st)) = not_succeeded st"
  by (rule not_succeeded_cong) (simp_all add: check_stop_or_error_def)

lemma not_succeeded_classify_loop [simp]:
  "not_succeeded (snd (snd (classify_loop self env n i items segs st))) = not_succeeded st"
proof -
  obtain fl segs' st' where c: "classify_loop self env n i items segs st = (fl, segs', st')"
    by (cases "classify_loop self env n i items segs st") auto
  from classify_loop_fields [OF c] have "not_succeeded st' = not_succeeded st" by (intro not_succeeded_cong) simp_all
  with c show ?thesis by simp
qed

lemma reassemble_True_exists:
  "reassemble_video env fs v a out = (fs', True) \<Longrightarrow> os_path_exists fs' out"
  by (auto simp: reassemble_video_def Let_def split: if_splits option.splits prod.splits bool.splits)

lemma reassemble_exists:
  "snd (reassemble_video env fs v a out) \<Longrightarrow> os_path_exists (fst (reassemble_video env fs v a out)) out"
  using reassemble_True_exists [of env fs v a out "fst (reassemble_video env fs v a out)"]
  by (cases "reassemble_video env fs v a out") simp

lemma step_5_inv [simp]:
  assumes "not_succeeded st"
  shows "run_inv (snd (step_5 self env cens st))"
  using assms choose_output_path_mp4 [of "st_fs st" "wf_output_dir self" "stem (wf_video_path self)"]
    reassemble_exists [of env "st_fs st" "wf_video_path self" cens
       "choose_output_path (st_fs st) (wf_output_dir self) (stem (wf_video_path self))"]
  by (simp add: step_5_def Let_def split_beta not_succeeded_def run_inv_def paths_inv_def success_inv_def)

lemma not_succeeded_set_censored:
  assumes "not_succeeded st" and "case r of None \<Rightarrow> True | Some q \<Rightarrow> wav_path q"
  shows "not_succeeded (st\<lparr>st_temp_audio_censored := r\<rparr>)"
  using assms by (auto simp: not_succeeded_def paths_inv_def split: option.splits)


lemma step_4_inv [simp]:
  assumes "not_succeeded st"
  shows "run_inv (snd (step_4 self env orig segs st))"
proof (cases "get_temp_filepath (env_config env) (uuid4 env 1) ''audio_censored.wav''")
  case None
  have "not_succeeded (x\<lparr>st_temp_audio_censored := None\<rparr>)" if "not_succeeded x" for x :: "'a run_state"
    using that by (rule not_succeeded_set_censored) simp
  then show ?thesis using assms None
    by (simp add: step_4_def Let_def split_beta not_succeeded_run_inv split: bool.splits)
next
  case (Some q)
  then have "wav_path q" by (rule temp_path_censored_wav)
  then have "not_succeeded (x\<lparr>st_temp_audio_censored := Some q\<rparr>)" if "not_succeeded x" for x :: "'a run_state"
    using that by (intro not_succeeded_set_censored) simp_all
  then show ?thesis using assms Some
    by (simp add: step_4_def Let_def split_beta not_succeeded_run_inv split: bool.splits)
qed

lemma step_3_inv [simp]:
  assumes "not_succeeded st"
  shows "run_inv (snd (step_3 self env orig ws st))"
  using assms
  by (simp add: step_3_def Let_def split_beta not_succeeded_run_inv split: flow.splits)

lemma step_2_inv [simp]:
  assumes "not_succeeded st"
  shows "run_inv (snd (step_2 self env orig st))"
  using assms
  by (simp add: step_2_def Let_def split_beta not_succeeded_run_inv split: option.splits bool.splits)




subsection \<open>Cleanup\<close>


subsection \<open>Runs with a failed and with an empty transcription\<close>


lemma is_set_late:
  "\<forall>n. stop_at env = Some n \<longrightarrow> k \<le> n \<Longrightarrow> st_reads st < k \<Longrightarrow> \<not> is_set env st"
  by (auto simp: is_set_def split: option.splits)

lemma check_pass:
  "\<not> is_set env st \<Longrightarrow> \<not> c \<Longrightarrow> check_stop_or_error self env c m st = (False, after_read st)"
  by (simp add: check_stop_or_error_def)

lemma check_error:
  "\<not> is_set env st \<Longrightarrow> c \<Longrightarrow>
     check_stop_or_error self env c m st = (True, update_status self m (after_read st))"
  by (simp add: check_stop_or_error_def)

lemma initial_state_fields [simp]:
  "st_fs (initial_state fs) = fs"
  "st_events (initial_state fs) = []"
  "st_temp_audio_original (initial_state fs) = None"
  "st_temp_audio_censored (initial_state fs) = None"
  "st_final_output_path (initial_state fs) = None"
  "st_success (initial_state fs) = False"
  "st_reads (initial_state fs) = 0"
  by (simp_all add: initial_state_def)


lemmas try_defs = run_try_def step_2_def step_3_def step_4_def step_5_def Let_def
  check_stop_or_error_def falsy_def

lemma empty_transcription_try:
  assumes valid: "wf_video_path self \<noteq> []" "os_path_isfile fs (wf_video_path self)"
      "wf_output_dir self \<noteq> []" "os_path_isdir fs (wf_output_dir self)"
    and calm: "\<forall>s. \<not> unexpected env s"
    and late: "\<forall>n. stop_at env = Some n \<longrightarrow> 6 \<le> n"
    and ext: "extract_audio env fs (wf_video_path self) = (fs1, Some orig)"
    and tr: "transcribe_audio env fs1 orig = (msgs, Some [])"
    and tmp: "get_temp_filepath (env_config env) (uuid4 env 1) ''audio_censored.wav'' = Some cens"
    and cen: "censor_audio (env_pydub env) (env_os env) (env_config env) fs1 orig [] cens
                = (fs2, Some cens)"
    and rea: "reassemble_video env fs2 (wf_video_path self) cens
                (choose_output_path fs2 (wf_output_dir self) (stem (wf_video_path self)))
                = (fs3, True)"
  shows "fst (run_try self env (initial_state fs)) = Continue \<and>
     st_success (snd (run_try self env (initial_state fs))) \<and>
     st_final_output_path (snd (run_try self env (initial_state fs)))
       = Some (choose_output_path fs2 (wf_output_dir self) (stem (wf_video_path self))) \<and>
     st_fs (snd (run_try self env (initial_state fs))) = fs3 \<and>
     st_reads (snd (run_try self env (initial_state fs))) = 6 \<and>
     st_temp_audio_original (snd (run_try self env (initial_state fs))) = Some orig \<and>
     st_temp_audio_censored (snd (run_try self env (initial_state fs))) = Some cens"
proof -
  from ext have "wav_path orig" by (rule extract_audio_wav)
  then have ne: "orig \<noteq> []" by (simp add: wav_path_def)
  from tmp have "wav_path cens" by (rule temp_path_censored_wav)
  then have nc: "cens \<noteq> []" by (simp add: wav_path_def)
  show ?thesis
  proof (cases "stop_at env")
    case None
    then have ns: "is_set env = (\<lambda>st. False)" by (auto simp: is_set_def)
    show ?thesis
      using valid calm ext tr tmp cen rea ne nc
      by (simp add: try_defs ns)
  next
    case (Some n)
    with late have n: "6 \<le> n" by simp
    have ns: "is_set env = (\<lambda>st. n \<le> st_reads st)" using Some by (auto simp: is_set_def)
    show ?thesis
      using valid calm ext tr tmp cen rea ne nc n
      by (simp add: try_defs ns)
  qed
qed


subsection \<open>What a run leaves on disk\<close>





lemma finalize_result:
  "st_success (finalize self env st) = (st_success st \<and> \<not> is_set env st)"
  "st_final_output_path (finalize self env st) = (if is_set env st then None else st_final_output_path st)"
  by (simp_all add: finalize_def Let_def is_set_def split: option.splits)

lemma st_events_simps [simp]:
  "st_events (update_status self m st) = st_events st @ (if wf_status_callback self then [Status m] else [])"
  "st_events (update_progress self v st) =
     st_events st @ (if wf_progress_callback self then [Progress (max 0 (min 1 (real_of_int v / 100)))] else [])"
  by (simp_all add: update_status_def update_progress_def)

lemma st_events_fold_status [simp]:
  "st_events (fold (update_status self) ms st) =
     st_events st @ (if wf_status_callback self then map Status ms else [])"
  by (induction ms arbitrary: st) simp_all



subsection \<open>The runs used as witnesses\<close>

lemma demo_extract:
  assumes "env_config E = default_config" "uuid4 E 0 = ''u0''" "env_os E = ideal_os"
    "to_16k_mono E = (\<lambda>a. a)"
  shows "extract_audio E demo_fs ''/in/v.mp4'' = (demo_fs1, Some ''/tmp/tmp_u0_audio_extracted.wav'')"
  using assms
  by (simp add: extract_audio_def get_temp_filepath_extracted default_config_def os_path_join_def
        VideoFileClip_def demo_fs_def demo_fs1_def write_file_def os_path_isdir_def ideal_os_def
        os_path_exists_def)

lemma demo_temp_censored:
  "get_temp_filepath default_config ''u1'' ''audio_censored.wav''
     = Some ''/tmp/tmp_u1_audio_censored.wav''"
  by (simp add: get_temp_filepath_censored default_config_def os_path_join_def)

lemma demo_censor:
  "censor_audio lib ideal_os cfg demo_fs1 ''/tmp/tmp_u0_audio_extracted.wav'' []
      ''/tmp/tmp_u1_audio_censored.wav'' = (demo_fs2, Some ''/tmp/tmp_u1_audio_censored.wav'')"
  by (simp add: censor_audio_def copyfile_def write_file_def os_path_isdir_def ideal_os_def
        demo_fs1_def demo_fs2_def demo_fs_def)

lemma demo_output_path:
  "choose_output_path demo_fs2 ''/out'' (stem ''/in/v.mp4'') = ''/out/v_censored.mp4''"
  by (simp add: choose_output_path_def stem_def path_name_def os_path_join_def os_path_exists_def
        demo_fs2_def demo_fs1_def demo_fs_def)

lemma demo_reassemble:
  assumes "env_os E = ideal_os"
  shows "reassemble_video E demo_fs2 ''/in/v.mp4'' ''/tmp/tmp_u1_audio_censored.wav''
      ''/out/v_censored.mp4'' = (demo_fs3, True)"
  using assms
  by (simp add: reassemble_video_def os_path_isfile_def VideoFileClip_def AudioFileClip_def
        write_file_def os_path_isdir_def os_path_exists_def ideal_os_def len_def Let_def
        demo_fs3_def demo_fs2_def demo_fs1_def demo_fs_def)

lemma silent_transcribe:
  "transcribe_audio (silent_env\<lparr>stop_at := s\<rparr>) fs p
     = ([''Transcription started...'', ''Parsing transcription results...''], Some [])"
  by (simp add: transcribe_audio_def silent_env_def demo_env_def strip_def isspace_def)

lemma silent_before_finally:
  assumes "\<forall>n. s = Some n \<longrightarrow> 6 \<le> n"
  shows "st_success (before_finally demo_workflow (silent_env\<lparr>stop_at := s\<rparr>) demo_fs) \<and>
     st_final_output_path (before_finally demo_workflow (silent_env\<lparr>stop_at := s\<rparr>) demo_fs)
       = Some ''/out/v_censored.mp4'' \<and>
     st_fs (before_finally demo_workflow (silent_env\<lparr>stop_at := s\<rparr>) demo_fs) = demo_fs3 \<and>
     st_reads (before_finally demo_workflow (silent_env\<lparr>stop_at := s\<rparr>) demo_fs) = 6 \<and>
     st_temp_audio_original (before_finally demo_workflow (silent_env\<lparr>stop_at := s\<rparr>) demo_fs)
       = Some ''/tmp/tmp_u0_audio_extracted.wav'' \<and>
     st_temp_audio_censored (before_finally demo_workflow (silent_env\<lparr>stop_at := s\<rparr>) demo_fs)
       = Some ''/tmp/tmp_u1_audio_censored.wav''"
proof -
  let ?E = "silent_env\<lparr>stop_at := s\<rparr>"
  have f: "env_config ?E = default_config" "uuid4 ?E 0 = ''u0''" "uuid4 ?E 1 = ''u1''"
    "env_os ?E = ideal_os" "to_16k_mono ?E = (\<lambda>a. a)" "\<forall>x. \<not> unexpected ?E x"
    "stop_at ?E = s" "env_pydub ?E = tone_pydub"
    by (simp_all add: silent_env_def demo_env_def)
  have w: "wf_video_path demo_workflow = ''/in/v.mp4''" "wf_output_dir demo_workflow = ''/out''"
    by (simp_all add: demo_workflow_def)
  have t: "fst (run_try demo_workflow ?E (initial_state demo_fs)) = Continue \<and>
     st_success (snd (run_try demo_workflow ?E (initial_state demo_fs))) \<and>
     st_final_output_path (snd (run_try demo_workflow ?E (initial_state demo_fs)))
       = Some (choose_output_path demo_fs2 (wf_output_dir demo_workflow)
                 (stem (wf_video_path demo_workflow))) \<and>
     st_fs (snd (run_try demo_workflow ?E (initial_state demo_fs))) = demo_fs3 \<and>
     st_reads (snd (run_try demo_workflow ?E (initial_state demo_fs))) = 6 \<and>
     st_temp_audio_original (snd (run_try demo_workflow ?E (initial_state demo_fs)))
       = Some ''/tmp/tmp_u0_audio_extracted.wav'' \<and>
     st_temp_audio_censored (snd (run_try demo_workflow ?E (initial_state demo_fs)))
       = Some ''/tmp/tmp_u1_audio_censored.wav''"
  proof (rule empty_transcription_try)
    show "wf_video_path demo_workflow \<noteq> []" "wf_output_dir demo_workflow \<noteq> []"
      by (simp_all add: w)
    show "os_path_isfile demo_fs (wf_video_path demo_workflow)"
      "os_path_isdir demo_fs (wf_output_dir demo_workflow)"
      by (simp_all add: w os_path_isfile_def os_path_isdir_def demo_fs_def)
    show "\<forall>x. \<not> unexpected ?E x" by (rule f)
    show "\<forall>n. stop_at ?E = Some n \<longrightarrow> 6 \<le> n" using assms by (simp add: f)
    show "extract_audio ?E demo_fs (wf_video_path demo_workflow)
        = (demo_fs1, Some ''/tmp/tmp_u0_audio_extracted.wav'')"
      unfolding w by (rule demo_extract) (rule f)+
    show "transcribe_audio ?E demo_fs1 ''/tmp/tmp_u0_audio_extracted.wav''
        = ([''Transcription started...'', ''Parsing transcription results...''], Some [])"
      by (rule silent_transcribe)
    show "get_temp_filepath (env_config ?E) (uuid4 ?E 1) ''audio_censored.wav''
        = Some ''/tmp/tmp_u1_audio_censored.wav''"
      unfolding f by (rule demo_temp_censored)
    show "censor_audio (env_pydub ?E) (env_os ?E) (env_config ?E) demo_fs1
        ''/tmp/tmp_u0_audio_extracted.wav'' [] ''/tmp/tmp_u1_audio_censored.wav''
        = (demo_fs2, Some ''/tmp/tmp_u1_audio_censored.wav'')"
      unfolding f by (rule demo_censor)
    show "reassemble_video ?E demo_fs2 (wf_video_path demo_workflow) ''/tmp/tmp_u1_audio_censored.wav''
        (choose_output_path demo_fs2 (wf_output_dir demo_workflow) (stem (wf_video_path demo_workflow)))
        = (demo_fs3, True)"
      unfolding w demo_output_path by (rule demo_reassemble) (rule f)
  qed
  obtain fl st where r: "run_try demo_workflow ?E (initial_state demo_fs) = (fl, st)"
    by (cases "run_try demo_workflow ?E (initial_state demo_fs)")
  with t have "fl = Continue" by simp
  with r have "before_finally demo_workflow ?E demo_fs = st"
    by (simp add: before_finally_def handle_exception_def)
  with t r show ?thesis by (simp add: w demo_output_path)
qed


lemma show_nat_small:
  "show_nat (Suc (Suc 0)) = ''2''" "show_nat (Suc 0) = ''1''"
  by (simp_all add: show_nat.simps numeral_2_eq_2 [symmetric])

text \<open>The events of the run in which two words are heard and the second is censored.\<close>

lemma demo_run_events:
  "st_events (run demo_workflow demo_env demo_fs) =
     [Status ''Step 1/5: Extracting audio...'', Progress (1 / 20),
      Status ''Step 2/5: Transcribing audio (this may take time)...'', Progress (1 / 5),
      Status ''Transcription started...'', Status ''Parsing transcription results...'',
      Status ''Step 3/5: Classifying 2 words...'', Progress (1 / 2),
      Progress (3 / 5), Progress (7 / 10),
      Status ''Identified 1 segments to censor.'', Progress (7 / 10),
      Status ''Step 4/5: Generating censored audio...'', Progress (17 / 20),
      Status ''Step 5/5: Reassembling video (this may also take time)...'',
      Status ''Processing complete in 1.00 seconds!'', Progress 1,
      Completion True (Some ''/out/v_censored.mp4'')]"
  by (simp add: run_def finalize_def handle_exception_def run_try_def step_2_def step_3_def
        step_4_def step_5_def check_stop_or_error_def is_set_def after_read_def update_status_def
        update_progress_def initial_state_def falsy_def extract_audio_def get_temp_filepath_def
        transcribe_audio_def censor_audio_def reassemble_video_def write_file_def copyfile_def
        from_wav_def VideoFileClip_def AudioFileClip_def os_path_isfile_def os_path_isdir_def
        os_path_exists_def os_path_join_def stem_def path_name_def strip_def isalnum_def
        isspace_def choose_output_path_def remove_incomplete_output_def os_remove_def
        censor_buffer_def clamp_segment_def seconds_to_milliseconds_def py_int_def len_def
        overlay_def generate_beep_def silent_def demo_env_def demo_fs_def demo_workflow_def
        tone_pydub_def ideal_os_def default_config_def show_nat_small Let_def numeral_2_eq_2
      del: st_events_simps st_events_fold_status update_status_fields update_progress_fields
        after_read_fields initial_state_fields)

lemma silent_env_stop: "silent_env\<lparr>stop_at := None\<rparr> = silent_env"
  by (simp add: silent_env_def demo_env_def)

subsection \<open>The claims about the workflow\<close>



text \<open>
  C3: every run ends with exactly one completion notification, it is the last event of the
  run, and it carries the final values of \<open>success\<close> and of the output path. The run is a
  total function of the workflow, its environment and the file system, so this covers
  success, failures of collaborators, validation errors, cancellation at any read of the
  stop flag and exceptions raised at any call site of the \<open>try\<close> block.
\<close>

theorem completion_delivered_once_and_last:
  "st_events (run self env fs) \<noteq> [] \<and>
   last (st_events (run self env fs)) =
     Completion (st_success (run self env fs)) (st_final_output_path (run self env fs)) \<and>
   length (filter is_completion (st_events (run self env fs))) = 1 \<and>
   filter is_completion (butlast (st_events (run self env fs))) = []"
proof -
  let ?r = "run self env fs"
  let ?b = "before_finally self env fs"
  let ?pre = "st_events (if is_set env ?b then update_status self ''Processing stopped.'' ?b else ?b)"
  have ev: "st_events ?r = ?pre @ [Completion (st_success ?r) (st_final_output_path ?r)]"
    unfolding run_finalize by (rule events_finalize)
  have "completions ?r = [Completion (st_success ?r) (st_final_output_path ?r)]"
    unfolding run_finalize by (simp add: completions_finalize)
  then have one: "filter is_completion (st_events ?r) = [Completion (st_success ?r) (st_final_output_path ?r)]"
    by (simp add: completions_def)
  from ev have bl: "butlast (st_events ?r) = ?pre" by simp
  from one ev have "filter is_completion ?pre = []" by simp
  with bl have "filter is_completion (butlast (st_events ?r)) = []" by simp
  moreover from one have "length (filter is_completion (st_events ?r)) = 1" by simp
  moreover from ev have "st_events ?r \<noteq> []" by simp
  moreover from ev have "last (st_events ?r) = Completion (st_success ?r) (st_final_output_path ?r)"
    by simp
  ultimately show ?thesis by simp
qed

theorem completion_delivered_once_and_last_witness:
  "last (st_events (run demo_workflow silent_env demo_fs)) = Completion True (Some ''/out/v_censored.mp4'') \<and>
   length (filter is_completion (st_events (run demo_workflow silent_env demo_fs))) = 1"
proof -
  have "\<not> is_set silent_env st" for st :: "nat run_state"
    by (simp add: is_set_def silent_env_def demo_env_def)
  then have "st_success (run demo_workflow silent_env demo_fs)"
    "st_final_output_path (run demo_workflow silent_env demo_fs) = Some ''/out/v_censored.mp4''"
    using silent_before_finally [of None]
    by (simp_all add: run_finalize finalize_result silent_env_stop)
  with completion_delivered_once_and_last [of demo_workflow silent_env demo_fs]
  show ?thesis by simp
qed





end
